theory Spec2Isabelle
  imports Main
begin

section \<open>JavaScript values as the components observe them\<close>

text \<open>
  The two components (\<^verbatim>\<open>DisplaySettings.tsx\<close>, \<^verbatim>\<open>ThemeToggle.tsx\<close>) decode the remote
  profile fields with \<^verbatim>\<open>JSON.parse\<close> and then only read properties, test truthiness,
  test \<^verbatim>\<open>typeof\<close> and compare with \<^verbatim>\<open>!==\<close>.  A decoded value is a \<open>json\<close>; a
  property read that yields \<^verbatim>\<open>undefined\<close> is \<open>None\<close>.  Numbers are only ever tested
  for being zero and for equality, so integers stand for them.  An object is the list of
  its own properties.  A string is the list of its code units, those below 256 being
  the ones a \<open>char\<close> can hold.
\<close>

datatype json =
    JNull
  | JBool bool
  | JNum int
  | JStr string
  | JArr "json list"
  | JObj "(string \<times> json) list"

text \<open>\<^verbatim>\<open>v.k\<close> for a value \<open>v\<close> that is not \<^verbatim>\<open>null\<close> and a key \<open>k\<close> among
  \<^verbatim>\<open>theme\<close>, \<^verbatim>\<open>fontSize\<close>, \<^verbatim>\<open>colorBlindMode\<close>, \<^verbatim>\<open>reducedMotion\<close>: only an
  object can own such a property.  (On \<^verbatim>\<open>null\<close> the read throws; the callers test for
  \<open>JNull\<close> before they read.)\<close>

fun get_member :: "json \<Rightarrow> string \<Rightarrow> json option" where
  "get_member (JObj kvs) k = map_of kvs k"
| "get_member _ k = None"

text \<open>JavaScript truthiness, as used by \<^verbatim>\<open>userPrefs.theme && ...\<close>.\<close>

fun truthy :: "json option \<Rightarrow> bool" where
  "truthy None = False"
| "truthy (Some JNull) = False"
| "truthy (Some (JBool b)) = b"
| "truthy (Some (JNum n)) = (n \<noteq> 0)"
| "truthy (Some (JStr s)) = (s \<noteq> [])"
| "truthy (Some (JArr xs)) = True"
| "truthy (Some (JObj kvs)) = True"

text \<open>\<^verbatim>\<open>a !== b\<close> between a freshly decoded value and a value that comes from somewhere
  else: primitives compare by value, an object or array is never identical to one from
  another allocation, and \<^verbatim>\<open>undefined\<close> differs from every decoded value.\<close>

fun strict_eq :: "json \<Rightarrow> json \<Rightarrow> bool" where
  "strict_eq JNull JNull = True"
| "strict_eq (JBool a) (JBool b) = (a = b)"
| "strict_eq (JNum a) (JNum b) = (a = b)"
| "strict_eq (JStr a) (JStr b) = (a = b)"
| "strict_eq _ _ = False"

fun strict_neq :: "json option \<Rightarrow> json \<Rightarrow> bool" where
  "strict_neq None b = True"
| "strict_neq (Some a) b = (\<not> strict_eq a b)"

text \<open>\<^verbatim>\<open>String.prototype.trim\<close> removes white space and line terminators; a string is
  blank when nothing else is in it (the empty string included).\<close>

definition js_space :: "char \<Rightarrow> bool" where
  "js_space c = (c = CHR 0x09 \<or> c = CHR 0x0A \<or> c = CHR 0x0B \<or> c = CHR 0x0C \<or>
                 c = CHR 0x0D \<or> c = CHR 0x20 \<or> c = CHR 0xA0)"

definition js_blank :: "string \<Rightarrow> bool" where
  "js_blank s = list_all js_space s"

text \<open>\<^verbatim>\<open>JSON.parse\<close> and \<^verbatim>\<open>JSON.stringify\<close> are built-ins of the platform, not code
  of the repository: the components are modelled over any pair of them.  \<open>None\<close> is a
  thrown \<^verbatim>\<open>SyntaxError\<close>.\<close>

record JSON_api =
  JSON_parse :: "string \<Rightarrow> json option"
  JSON_stringify :: "json \<Rightarrow> string"

section \<open>The data model\<close>

datatype theme_mode = Light | Dark

fun theme_name :: "theme_mode \<Rightarrow> string" where
  "theme_name Light = ''light''"
| "theme_name Dark = ''dark''"

text \<open>\<^verbatim>\<open>['light', 'dark'].includes(x)\<close> and the cast \<^verbatim>\<open>x as 'light' | 'dark'\<close>.\<close>

definition includes_theme :: "json option \<Rightarrow> bool" where
  "includes_theme x = (x = Some (JStr ''light'') \<or> x = Some (JStr ''dark''))"

definition cast_theme :: "json option \<Rightarrow> theme_mode" where
  "cast_theme x = (if x = Some (JStr ''light'') then Light else Dark)"

text \<open>\<^verbatim>\<open>ThemeSettings\<close>: the one record of the Local Preference Store.  \<^verbatim>\<open>fontSize\<close> is
  typed as an enumeration of four strings in TypeScript, but \<^verbatim>\<open>loadPreferences\<close> puts any
  truthy decoded value into the form and \<^verbatim>\<open>handleSubmit\<close> stores the form, so at run time
  it is a \<open>json\<close> value.\<close>

record ThemeSettings =
  ident :: string
  theme :: theme_mode
  fontSize :: json
  colorBlindMode :: bool
  reducedMotion :: bool
  updatedAt :: nat

text \<open>Modelled from the spec: \<^verbatim>\<open>DEFAULT_THEME_SETTINGS\<close> of \<^verbatim>\<open>scripts/database/ThemeService\<close>,
  which is not among the sources.  The spec gives the default as theme dark, fontSize
  medium, colorBlindMode false, reducedMotion false; it gives no time stamp, and nothing
  below depends on the one chosen here.\<close>

definition DEFAULT_THEME_SETTINGS :: ThemeSettings where
  "DEFAULT_THEME_SETTINGS =
     \<lparr>ident = ''current'', theme = Dark, fontSize = JStr ''medium'',
      colorBlindMode = False, reducedMotion = False, updatedAt = 0\<rparr>"

text \<open>The user record of the Remote Profile Accessor: an identifier and the two text
  fields, each of which may be absent.\<close>

record user_record =
  user_id :: string
  display_preferences :: "string option"
  accessibility_settings :: "string option"

text \<open>Everything outside the components: the record held by the Local Preference Store
  (\<open>None\<close> before the first write) and the authenticated user, if any.\<close>

record world =
  local_store :: "ThemeSettings option"
  current_user :: "user_record option"

text \<open>What the outside does to one run of a handler: whether the local read, the local
  write and the remote write succeed, and the two readings of \<^verbatim>\<open>Date.now()\<close> in
  \<^verbatim>\<open>handleSubmit\<close>.\<close>

record outcomes =
  read_ok :: bool
  local_write_ok :: bool
  remote_write_ok :: bool
  now_saved :: nat
  now_applied :: nat

text \<open>The observable effects of a handler, in the order in which they happen.  A write
  event records the attempt, whether or not it succeeds.\<close>

datatype event =
    GetThemeSettings
  | SaveThemeSettings ThemeSettings
  | UpdateFields string "(string \<times> string) list"
  | ConsoleError string
  | ToastError string
  | ToastSuccess string
  | ThemeChangeEvent

section \<open>The store accessors\<close>

text \<open>Modelled from the spec: \<^verbatim>\<open>ThemeService.getThemeSettings\<close> (not among the sources)
  returns the stored record, and the defaults if none is stored.\<close>

definition getThemeSettings :: "world \<Rightarrow> ThemeSettings" where
  "getThemeSettings w =
     (case local_store w of None \<Rightarrow> DEFAULT_THEME_SETTINGS | Some s \<Rightarrow> s)"

text \<open>Modelled from the spec: \<^verbatim>\<open>ThemeService.saveThemeSettings\<close> (not among the sources)
  replaces the stored record wholesale.\<close>

definition saveThemeSettings :: "ThemeSettings \<Rightarrow> world \<Rightarrow> world" where
  "saveThemeSettings s w = w\<lparr>local_store := Some s\<rparr>"

text \<open>Modelled from the spec: a successful \<^verbatim>\<open>Update.updateFields(collection, userId,
  fields)\<close> (not among the sources) stores the given fields in the record of that user and
  leaves its other fields alone.\<close>

fun set_field :: "string \<times> string \<Rightarrow> user_record \<Rightarrow> user_record" where
  "set_field (k, v) u =
     (if k = ''display_preferences'' then u\<lparr>display_preferences := Some v\<rparr>
      else if k = ''accessibility_settings'' then u\<lparr>accessibility_settings := Some v\<rparr>
      else u)"

definition updateFields :: "string \<Rightarrow> (string \<times> string) list \<Rightarrow> world \<Rightarrow> world" where
  "updateFields userId fieldMap w =
     (case current_user w of
        None \<Rightarrow> w
      | Some u \<Rightarrow>
          if user_id u = userId then w\<lparr>current_user := Some (fold set_field fieldMap u)\<rparr>
          else w)"

section \<open>The settings form: \<^verbatim>\<open>DisplaySettings.tsx\<close>\<close>

text \<open>The \<^verbatim>\<open>useState\<close> cells of the component (lines 14 to 24).  \<open>hasChanges\<close> is
  what the handlers themselves leave in it by \<^verbatim>\<open>setHasChanges\<close>; the effect of lines 120
  to 134, which recomputes it after a render by comparing the form with
  \<^verbatim>\<open>currentSettings\<close>, belongs to no handler and is not part of the model.\<close>

record DisplaySettings =
  currentSettings :: "ThemeSettings option"
  form_theme :: theme_mode
  form_fontSize :: json
  form_colorBlindMode :: bool
  form_reducedMotion :: bool
  saving :: bool
  hasChanges :: bool

text \<open>The state of the first render: the initial values given to \<^verbatim>\<open>useState\<close>.\<close>

definition initial_state :: DisplaySettings where
  "initial_state =
     \<lparr>currentSettings = None,
      form_theme = theme DEFAULT_THEME_SETTINGS,
      form_fontSize = fontSize DEFAULT_THEME_SETTINGS,
      form_colorBlindMode = colorBlindMode DEFAULT_THEME_SETTINGS,
      form_reducedMotion = reducedMotion DEFAULT_THEME_SETTINGS,
      saving = False,
      hasChanges = False\<rparr>"

text \<open>The objects \<^verbatim>\<open>{theme, fontSize}\<close> and \<^verbatim>\<open>{colorBlindMode, reducedMotion}\<close> that
  the component serializes.\<close>

definition display_object :: "theme_mode \<Rightarrow> json \<Rightarrow> json" where
  "display_object t fs = JObj [(''theme'', JStr (theme_name t)), (''fontSize'', fs)]"

definition accessibility_object :: "bool \<Rightarrow> bool \<Rightarrow> json" where
  "accessibility_object cb rm =
     JObj [(''colorBlindMode'', JBool cb), (''reducedMotion'', JBool rm)]"

text \<open>Lines 52 to 77 of \<^verbatim>\<open>loadPreferences\<close>: the display preferences of the user
  against the settings read from the local store.  The result is the form, the flag
  \<^verbatim>\<open>needsDisplayPrefsUpdate\<close> and what was logged.  Reading \<^verbatim>\<open>userPrefs.theme\<close> of a
  decoded \<^verbatim>\<open>null\<close> throws inside the \<^verbatim>\<open>try\<close>, before any setter has run.\<close>

definition display_decoded ::
  "ThemeSettings \<Rightarrow> json \<Rightarrow> DisplaySettings \<Rightarrow> DisplaySettings \<times> bool" where
  "display_decoded themeSettings userPrefs f =
     (let th = get_member userPrefs ''theme'';
          (f1, needs) =
            (if truthy th \<and> includes_theme th
                \<and> th \<noteq> Some (JStr (theme_name (theme themeSettings)))
             then (f\<lparr>form_theme := cast_theme th, hasChanges := True\<rparr>, False)
             else if \<not> includes_theme th then (f, True)
             else (f, False));
          fs = get_member userPrefs ''fontSize'';
          f2 =
            (case fs of
               None \<Rightarrow> f1
             | Some v \<Rightarrow>
                 if truthy fs \<and> strict_neq fs (fontSize themeSettings)
                 then f1\<lparr>form_fontSize := v, hasChanges := True\<rparr>
                 else f1)
      in (f2, needs))"

definition display_check ::
  "JSON_api \<Rightarrow> ThemeSettings \<Rightarrow> user_record \<Rightarrow> DisplaySettings
     \<Rightarrow> DisplaySettings \<times> bool \<times> event list" where
  "display_check J themeSettings user f =
     (case display_preferences user of
        None \<Rightarrow> (f, True, [])
      | Some s \<Rightarrow>
          if js_blank s then (f, True, [])
          else
            (case JSON_parse J s of
               None \<Rightarrow> (f, True, [ConsoleError ''Error parsing display preferences:''])
             | Some userPrefs \<Rightarrow>
                 if userPrefs = JNull
                 then (f, True, [ConsoleError ''Error parsing display preferences:''])
                 else
                   (let (f2, needs) = display_decoded themeSettings userPrefs f
                    in (f2, needs, []))))"

text \<open>Lines 80 to 103: the accessibility settings, each accepted only when
  \<^verbatim>\<open>typeof\<close> says \<^verbatim>\<open>boolean\<close>.\<close>

definition accessibility_decoded ::
  "ThemeSettings \<Rightarrow> json \<Rightarrow> DisplaySettings \<Rightarrow> DisplaySettings" where
  "accessibility_decoded themeSettings accessibilityPrefs f =
     (let f1 =
            (case get_member accessibilityPrefs ''colorBlindMode'' of
               Some (JBool b) \<Rightarrow>
                 if b \<noteq> colorBlindMode themeSettings
                 then f\<lparr>form_colorBlindMode := b, hasChanges := True\<rparr>
                 else f
             | _ \<Rightarrow> f)
      in (case get_member accessibilityPrefs ''reducedMotion'' of
            Some (JBool b) \<Rightarrow>
              if b \<noteq> reducedMotion themeSettings
              then f1\<lparr>form_reducedMotion := b, hasChanges := True\<rparr>
              else f1
          | _ \<Rightarrow> f1))"

definition accessibility_check ::
  "JSON_api \<Rightarrow> ThemeSettings \<Rightarrow> user_record \<Rightarrow> DisplaySettings
     \<Rightarrow> DisplaySettings \<times> bool \<times> event list" where
  "accessibility_check J themeSettings user f =
     (case accessibility_settings user of
        None \<Rightarrow> (f, True, [])
      | Some s \<Rightarrow>
          if js_blank s then (f, True, [])
          else
            (case JSON_parse J s of
               None \<Rightarrow> (f, True, [ConsoleError ''Error parsing accessibility settings:''])
             | Some accessibilityPrefs \<Rightarrow>
                 if accessibilityPrefs = JNull
                 then (f, True, [ConsoleError ''Error parsing accessibility settings:''])
                 else (accessibility_decoded themeSettings accessibilityPrefs f, False, [])))"

text \<open>Lines 137 to 161.  The function is a closure of one render: \<open>r\<close> is the state of
  that render, whose \<^verbatim>\<open>theme\<close>, \<^verbatim>\<open>fontSize\<close>, \<^verbatim>\<open>colorBlindMode\<close> and
  \<^verbatim>\<open>reducedMotion\<close> it serializes.\<close>

definition updateData :: "JSON_api \<Rightarrow> DisplaySettings \<Rightarrow> bool \<Rightarrow> bool \<Rightarrow> (string \<times> string) list" where
  "updateData J r updateDisplayPrefs updateAccessibility =
     (if updateDisplayPrefs
      then [(''display_preferences'',
             JSON_stringify J (display_object (form_theme r) (form_fontSize r)))]
      else [])
     @ (if updateAccessibility
        then [(''accessibility_settings'',
               JSON_stringify J
                 (accessibility_object (form_colorBlindMode r) (form_reducedMotion r)))]
        else [])"

definition initializeDefaultSettings ::
  "JSON_api \<Rightarrow> outcomes \<Rightarrow> DisplaySettings \<Rightarrow> string \<Rightarrow> bool \<Rightarrow> bool \<Rightarrow> world
     \<Rightarrow> world \<times> event list" where
  "initializeDefaultSettings J out r userId updateDisplayPrefs updateAccessibility w =
     (let fieldMap = updateData J r updateDisplayPrefs updateAccessibility
      in if fieldMap = [] then (w, [])
         else if remote_write_ok out
         then (updateFields userId fieldMap w, [UpdateFields userId fieldMap])
         else (w, [UpdateFields userId fieldMap,
                   ConsoleError ''Error initializing default settings:'']))"

text \<open>Lines 34 to 43: the settings read from the local store become the baseline and
  the form.\<close>

definition show_settings :: "ThemeSettings \<Rightarrow> DisplaySettings \<Rightarrow> DisplaySettings" where
  "show_settings themeSettings r =
     r\<lparr>currentSettings := Some themeSettings,
       form_theme := theme themeSettings,
       form_fontSize := fontSize themeSettings,
       form_colorBlindMode := colorBlindMode themeSettings,
       form_reducedMotion := reducedMotion themeSettings,
       hasChanges := False\<rparr>"

text \<open>Lines 28 to 114.  \<^verbatim>\<open>loadPreferences\<close> is created by the render whose state is
  \<open>r\<close> and runs once, from the effect with the empty dependency list.  The setters it calls
  change the state of later renders (the result \<open>f3\<close>), never the bindings of the render
  that created it; so the \<^verbatim>\<open>initializeDefaultSettings\<close> it calls is the one of the
  render \<open>r\<close>.\<close>

definition loadPreferences ::
  "JSON_api \<Rightarrow> outcomes \<Rightarrow> DisplaySettings \<Rightarrow> world
     \<Rightarrow> DisplaySettings \<times> world \<times> event list" where
  "loadPreferences J out r w =
     (if \<not> read_ok out
      then (r, w, [GetThemeSettings, ConsoleError ''Error loading preferences:'',
                   ToastError ''Failed to load display preferences''])
      else
        (let themeSettings = getThemeSettings w;
             f1 = show_settings themeSettings r
         in case current_user w of
              None \<Rightarrow> (f1, w, [GetThemeSettings])
            | Some user \<Rightarrow>
                (let (f2, needsDisplayPrefsUpdate, ev1) = display_check J themeSettings user f1;
                     (f3, needsAccessibilityUpdate, ev2) =
                        accessibility_check J themeSettings user f2
                 in if needsDisplayPrefsUpdate \<or> needsAccessibilityUpdate
                    then
                      (let (w', ev3) =
                             initializeDefaultSettings J out r (user_id user)
                               needsDisplayPrefsUpdate needsAccessibilityUpdate w
                       in (f3, w', GetThemeSettings # ev1 @ ev2 @ ev3))
                    else (f3, w, GetThemeSettings # ev1 @ ev2))))"

text \<open>The component mounts in its first render, so reconciliation is
  \<^verbatim>\<open>loadPreferences\<close> of the initial state.\<close>

definition reconcile :: "JSON_api \<Rightarrow> outcomes \<Rightarrow> world \<Rightarrow> DisplaySettings \<times> world \<times> event list" where
  "reconcile J out w = loadPreferences J out initial_state w"

text \<open>Lines 192 to 253: \<^verbatim>\<open>handleSubmit\<close>, the save of the form \<open>f\<close>.\<close>

definition saved_record :: "DisplaySettings \<Rightarrow> nat \<Rightarrow> ThemeSettings" where
  "saved_record f t =
     \<lparr>ident = ''current'', theme = form_theme f, fontSize = form_fontSize f,
      colorBlindMode = form_colorBlindMode f, reducedMotion = form_reducedMotion f,
      updatedAt = t\<rparr>"

definition save_fields :: "JSON_api \<Rightarrow> DisplaySettings \<Rightarrow> (string \<times> string) list" where
  "save_fields J f =
     [(''display_preferences'',
       JSON_stringify J (display_object (form_theme f) (form_fontSize f))),
      (''accessibility_settings'',
       JSON_stringify J (accessibility_object (form_colorBlindMode f) (form_reducedMotion f)))]"

definition save_failed :: "event list" where
  "save_failed =
     [ConsoleError ''Error saving display settings:'',
      ToastError ''Failed to save display settings to your profile'']"

definition handleSubmit ::
  "JSON_api \<Rightarrow> outcomes \<Rightarrow> DisplaySettings \<Rightarrow> world
     \<Rightarrow> DisplaySettings \<times> world \<times> event list" where
  "handleSubmit J out f w =
     (case current_user w of
        None \<Rightarrow> (f\<lparr>saving := False\<rparr>, w, save_failed)
      | Some user \<Rightarrow>
          (let record_saved = saved_record f (now_saved out)
           in if \<not> local_write_ok out
              then (f\<lparr>saving := False\<rparr>, w, SaveThemeSettings record_saved # save_failed)
              else
                (let w1 = saveThemeSettings record_saved w;
                     fieldMap = save_fields J f
                 in if \<not> remote_write_ok out
                    then (f\<lparr>saving := False\<rparr>, w1,
                          [SaveThemeSettings record_saved, UpdateFields (user_id user) fieldMap]
                          @ save_failed)
                    else
                      (f\<lparr>currentSettings := Some (saved_record f (now_applied out)),
                         hasChanges := False, saving := False\<rparr>,
                       updateFields (user_id user) fieldMap w1,
                       [SaveThemeSettings record_saved, UpdateFields (user_id user) fieldMap,
                        ToastSuccess ''Display settings saved successfully!'']))))"

section \<open>The theme toggle: \<^verbatim>\<open>ThemeToggle.tsx\<close>\<close>


fun flip_theme :: "theme_mode \<Rightarrow> theme_mode" where
  "flip_theme Light = Dark"
| "flip_theme Dark = Light"



text \<open>Decimal numerals: the keys of the own properties of an array or a string.\<close>

definition digit_char :: "nat \<Rightarrow> char" where
  "digit_char d = char_of (48 + d)"

fun show_nat :: "nat \<Rightarrow> string" where
  "show_nat n = (if n < 10 then [digit_char n] else show_nat (n div 10) @ [digit_char (n mod 10)])"





section \<open>A reference pair of JSON built-ins\<close>

text \<open>The theorems below hold for every pair \<open>J\<close> of built-ins, under the hypotheses they
  state.  To evaluate the components on concrete texts, this section defines one pair for
  the documents the components themselves write and the examples of the specification:
  objects, arrays, strings without control characters (of the escapes only
  \<^verbatim>\<open>\"\<close>, \<^verbatim>\<open>\\\<close> and \<^verbatim>\<open>\/\<close>), \<^verbatim>\<open>true\<close>, \<^verbatim>\<open>false\<close>, \<^verbatim>\<open>null\<close> and integers.  On
  such a document it decodes what \<^verbatim>\<open>JSON.parse\<close> decodes and writes the compact text
  that \<^verbatim>\<open>JSON.stringify\<close> writes.\<close>

definition show_int :: "int \<Rightarrow> string" where
  "show_int i = (if i < 0 then CHR ''-'' # show_nat (nat (- i)) else show_nat (nat i))"

fun quote_chars :: "string \<Rightarrow> string" where
  "quote_chars [] = []"
| "quote_chars (c # cs) =
     (if c = CHR 0x22 \<or> c = CHR 0x5C then CHR 0x5C # c # quote_chars cs
      else c # quote_chars cs)"

definition quote :: "string \<Rightarrow> string" where
  "quote s = CHR 0x22 # quote_chars s @ [CHR 0x22]"

fun to_text :: "json \<Rightarrow> string"
  and elements_text :: "json list \<Rightarrow> string"
  and members_text :: "(string \<times> json) list \<Rightarrow> string" where
  "to_text JNull = ''null''"
| "to_text (JBool b) = (if b then ''true'' else ''false'')"
| "to_text (JNum n) = show_int n"
| "to_text (JStr s) = quote s"
| "to_text (JArr xs) = ''['' @ elements_text xs @ '']''"
| "to_text (JObj kvs) = ''{'' @ members_text kvs @ ''}''"
| "elements_text [] = []"
| "elements_text [x] = to_text x"
| "elements_text (x # y # ys) = to_text x @ '','' @ elements_text (y # ys)"
| "members_text [] = []"
| "members_text [(k, v)] = quote k @ '':'' @ to_text v"
| "members_text ((k, v) # p # ps) = quote k @ '':'' @ to_text v @ '','' @ members_text (p # ps)"

definition json_ws :: "char \<Rightarrow> bool" where
  "json_ws c = (c = CHR 0x20 \<or> c = CHR 0x09 \<or> c = CHR 0x0A \<or> c = CHR 0x0D)"

fun skip_ws :: "string \<Rightarrow> string" where
  "skip_ws [] = []"
| "skip_ws (c # cs) = (if json_ws c then skip_ws cs else c # cs)"

fun strip_prefix :: "string \<Rightarrow> string \<Rightarrow> string option" where
  "strip_prefix [] s = Some s"
| "strip_prefix (p # ps) [] = None"
| "strip_prefix (p # ps) (c # cs) = (if p = c then strip_prefix ps cs else None)"

text \<open>The characters of a string after its opening quote, and the rest of the text.\<close>

definition cons_fst :: "'a \<Rightarrow> ('a list \<times> 'b) option \<Rightarrow> ('a list \<times> 'b) option" where
  "cons_fst x r = (case r of None \<Rightarrow> None | Some (xs, rest) \<Rightarrow> Some (x # xs, rest))"

fun string_body :: "string \<Rightarrow> (string \<times> string) option" where
  "string_body [] = None"
| "string_body [c] = (if c = CHR 0x22 then Some ([], []) else None)"
| "string_body (c # d # ds) =
     (if c = CHR 0x22 then Some ([], d # ds)
      else if c = CHR 0x5C
      then (if d = CHR 0x22 \<or> d = CHR 0x5C \<or> d = CHR ''/''
            then cons_fst d (string_body ds) else None)
      else if (of_char c :: nat) < 32 then None
      else cons_fst c (string_body (d # ds)))"

definition is_digit :: "char \<Rightarrow> bool" where
  "is_digit c = (48 \<le> (of_char c :: nat) \<and> (of_char c :: nat) \<le> 57)"

definition nat_of_digits :: "string \<Rightarrow> nat" where
  "nat_of_digits ds = foldl (\<lambda>n c. 10 * n + (of_char c - 48)) 0 ds"

definition number_text :: "string \<Rightarrow> (json \<times> string) option" where
  "number_text s =
     (let negative = (case s of [] \<Rightarrow> False | c # cs \<Rightarrow> c = CHR ''-'');
          s1 = (if negative then tl s else s);
          ds = takeWhile is_digit s1;
          rest = dropWhile is_digit s1
      in if ds = [] \<or> (1 < length ds \<and> hd ds = CHR ''0'') then None
         else if (case rest of [] \<Rightarrow> False | c # cs \<Rightarrow> c = CHR ''.'' \<or> c = CHR ''e'' \<or> c = CHR ''E'')
         then None
         else Some (JNum (if negative then - int (nat_of_digits ds) else int (nat_of_digits ds)),
                    rest))"

text \<open>A later member with the same key gives the value, the first one the place.\<close>

definition add_member :: "string \<Rightarrow> json \<Rightarrow> (string \<times> json) list \<Rightarrow> (string \<times> json) list" where
  "add_member k v kvs =
     (k, case map_of kvs k of None \<Rightarrow> v | Some v' \<Rightarrow> v') # filter (\<lambda>p. fst p \<noteq> k) kvs"

text \<open>The recursive descent, with fuel: every call uses one unit, and a text of length
  \<open>n\<close> needs fewer than \<open>n + 1\<close> nested calls.\<close>

fun value_text :: "nat \<Rightarrow> string \<Rightarrow> (json \<times> string) option"
  and elements_rest :: "nat \<Rightarrow> string \<Rightarrow> (json list \<times> string) option"
  and members_rest :: "nat \<Rightarrow> string \<Rightarrow> ((string \<times> json) list \<times> string) option" where
  "value_text 0 s = None"
| "value_text (Suc n) s =
     (case skip_ws s of
        [] \<Rightarrow> None
      | c # cs \<Rightarrow>
          if c = CHR 0x22
          then (case string_body cs of None \<Rightarrow> None | Some (x, r) \<Rightarrow> Some (JStr x, r))
          else if c = CHR ''[''
          then (case skip_ws cs of
                  [] \<Rightarrow> None
                | d # ds \<Rightarrow>
                    if d = CHR '']'' then Some (JArr [], ds)
                    else (case elements_rest n cs of
                            None \<Rightarrow> None
                          | Some (xs, r) \<Rightarrow> Some (JArr xs, r)))
          else if c = CHR ''{''
          then (case skip_ws cs of
                  [] \<Rightarrow> None
                | d # ds \<Rightarrow>
                    if d = CHR ''}'' then Some (JObj [], ds)
                    else (case members_rest n cs of
                            None \<Rightarrow> None
                          | Some (kvs, r) \<Rightarrow> Some (JObj kvs, r)))
          else if c = CHR ''t''
          then (case strip_prefix ''true'' (c # cs) of
                  None \<Rightarrow> None | Some r \<Rightarrow> Some (JBool True, r))
          else if c = CHR ''f''
          then (case strip_prefix ''false'' (c # cs) of
                  None \<Rightarrow> None | Some r \<Rightarrow> Some (JBool False, r))
          else if c = CHR ''n''
          then (case strip_prefix ''null'' (c # cs) of
                  None \<Rightarrow> None | Some r \<Rightarrow> Some (JNull, r))
          else number_text (c # cs))"
| "elements_rest 0 s = None"
| "elements_rest (Suc n) s =
     (case value_text n s of
        None \<Rightarrow> None
      | Some (x, r) \<Rightarrow>
          (case skip_ws r of
             [] \<Rightarrow> None
           | c # cs \<Rightarrow>
               if c = CHR '']'' then Some ([x], cs)
               else if c = CHR '','' then cons_fst x (elements_rest n cs)
               else None))"
| "members_rest 0 s = None"
| "members_rest (Suc n) s =
     (case skip_ws s of
        [] \<Rightarrow> None
      | c # cs \<Rightarrow>
          if c \<noteq> CHR 0x22 then None
          else
            (case string_body cs of
               None \<Rightarrow> None
             | Some (k, r) \<Rightarrow>
                 (case skip_ws r of
                    [] \<Rightarrow> None
                  | d # ds \<Rightarrow>
                      if d \<noteq> CHR '':'' then None
                      else
                        (case value_text n ds of
                           None \<Rightarrow> None
                         | Some (v, r2) \<Rightarrow>
                             (case skip_ws r2 of
                                [] \<Rightarrow> None
                              | e # es \<Rightarrow>
                                  if e = CHR ''}'' then Some ([(k, v)], es)
                                  else if e = CHR '',''
                                  then (case members_rest n es of
                                          None \<Rightarrow> None
                                        | Some (kvs, r3) \<Rightarrow> Some (add_member k v kvs, r3))
                                  else None)))))"

definition from_text :: "string \<Rightarrow> json option" where
  "from_text s =
     (case value_text (Suc (length s)) s of
        None \<Rightarrow> None
      | Some (v, r) \<Rightarrow> if skip_ws r = [] then Some v else None)"

definition JSON_ref :: JSON_api where
  "JSON_ref = \<lparr>JSON_parse = from_text, JSON_stringify = to_text\<rparr>"

section \<open>Reading a run\<close>

text \<open>A handler returns the state of the component, the world and the trace.\<close>

definition state_after :: "'s \<times> world \<times> event list \<Rightarrow> 's" where
  "state_after x = fst x"

definition world_after :: "'s \<times> world \<times> event list \<Rightarrow> world" where
  "world_after x = fst (snd x)"

definition trace_of :: "'s \<times> world \<times> event list \<Rightarrow> event list" where
  "trace_of x = snd (snd x)"

text \<open>The two flags of \<^verbatim>\<open>loadPreferences\<close> as functions of the remote field alone
  (lemmas \<open>display_check_flag\<close> and \<open>accessibility_check_flag\<close> below).\<close>

definition needs_display :: "JSON_api \<Rightarrow> string option \<Rightarrow> bool" where
  "needs_display J field =
     (case field of
        None \<Rightarrow> True
      | Some s \<Rightarrow>
          js_blank s \<or>
          (case JSON_parse J s of
             None \<Rightarrow> True
           | Some v \<Rightarrow> v = JNull \<or> \<not> includes_theme (get_member v ''theme'')))"

definition needs_accessibility :: "JSON_api \<Rightarrow> string option \<Rightarrow> bool" where
  "needs_accessibility J field =
     (case field of
        None \<Rightarrow> True
      | Some s \<Rightarrow>
          js_blank s \<or> (case JSON_parse J s of None \<Rightarrow> True | Some v \<Rightarrow> v = JNull))"

fun is_update :: "event \<Rightarrow> bool" where
  "is_update (UpdateFields userId fieldMap) = True"
| "is_update _ = False"

fun is_local_write :: "event \<Rightarrow> bool" where
  "is_local_write (SaveThemeSettings s) = True"
| "is_local_write _ = False"

fun is_store_write :: "event \<Rightarrow> bool" where
  "is_store_write (SaveThemeSettings s) = True"
| "is_store_write (UpdateFields userId fieldMap) = True"
| "is_store_write _ = False"

text \<open>\<^verbatim>\<open>typeof x === 'boolean'\<close>.\<close>

fun is_boolean :: "json \<Rightarrow> bool" where
  "is_boolean (JBool b) = True"
| "is_boolean _ = False"

text \<open>The remote fields that a trace writes, with the texts written.\<close>

fun written_fields :: "event \<Rightarrow> (string \<times> string) list" where
  "written_fields (UpdateFields userId fieldMap) = fieldMap"
| "written_fields _ = []"

definition remote_writes :: "event list \<Rightarrow> (string \<times> string) list" where
  "remote_writes evs = concat (map written_fields evs)"

text \<open>What the remote field \<open>field\<close> of the authenticated user holds under the key
  \<open>k\<close>, once decoded.\<close>

definition remote_member ::
  "JSON_api \<Rightarrow> world \<Rightarrow> (user_record \<Rightarrow> string option) \<Rightarrow> string \<Rightarrow> json option" where
  "remote_member J w field k =
     Option.bind (Option.bind (Option.bind (current_user w) field) (JSON_parse J))
       (\<lambda>v. get_member v k)"

text \<open>What a theorem about a write and a later read needs of the built-ins: the text
  written for \<open>v\<close> is not blank and decodes to \<open>v\<close> again.\<close>

definition roundtrips :: "JSON_api \<Rightarrow> json \<Rightarrow> bool" where
  "roundtrips J v =
     (JSON_parse J (JSON_stringify J v) = Some v \<and> \<not> js_blank (JSON_stringify J v))"

text \<open>The four font sizes of the form's selector (line 172).\<close>

datatype font_size = Small | Medium | Large | ExtraLarge

fun font_json :: "font_size \<Rightarrow> json" where
  "font_json Small = JStr ''small''"
| "font_json Medium = JStr ''medium''"
| "font_json Large = JStr ''large''"
| "font_json ExtraLarge = JStr ''extra-large''"

section \<open>Concrete inputs\<close>

definition all_ok :: outcomes where
  "all_ok = \<lparr>read_ok = True, local_write_ok = True, remote_write_ok = True,
             now_saved = 1000, now_applied = 1001\<rparr>"

definition remote_down :: outcomes where
  "remote_down = all_ok\<lparr>remote_write_ok := False\<rparr>"


definition settings_of :: "theme_mode \<Rightarrow> font_size \<Rightarrow> bool \<Rightarrow> bool \<Rightarrow> ThemeSettings" where
  "settings_of t fs cb rm =
     \<lparr>ident = ''current'', theme = t, fontSize = font_json fs, colorBlindMode = cb,
      reducedMotion = rm, updatedAt = 7\<rparr>"

definition user_with :: "string option \<Rightarrow> string option \<Rightarrow> user_record" where
  "user_with dp acc =
     \<lparr>user_id = ''u1'', display_preferences = dp, accessibility_settings = acc\<rparr>"

definition world_of :: "ThemeSettings \<Rightarrow> user_record option \<Rightarrow> world" where
  "world_of s u = \<lparr>local_store = Some s, current_user = u\<rparr>"

definition edited_form :: DisplaySettings where
  "edited_form =
     \<lparr>currentSettings = Some DEFAULT_THEME_SETTINGS, form_theme = Light,
      form_fontSize = JStr ''large'', form_colorBlindMode = True, form_reducedMotion = True,
      saving = True, hasChanges = True\<rparr>"

definition dark_store :: ThemeSettings where
  "dark_store = settings_of Dark Medium False False"

definition light_store :: ThemeSettings where
  "light_store = settings_of Light Large True True"


definition small_store :: ThemeSettings where
  "small_store = settings_of Dark Small False False"

definition text_light_medium :: string where
  \<open>text_light_medium = ''{"theme":"light","fontSize":"medium"}''\<close>

definition text_all_on :: string where
  \<open>text_all_on = ''{"colorBlindMode":true,"reducedMotion":true}''\<close>

definition text_purple :: string where
  \<open>text_purple = ''{"theme":"purple"}''\<close>

definition text_empty_font :: string where
  \<open>text_empty_font = ''{"theme":"dark","fontSize":""}''\<close>

definition text_gigantic :: string where
  \<open>text_gigantic = ''{"theme":"dark","fontSize":"gigantic"}''\<close>

definition text_not_booleans :: string where
  \<open>text_not_booleans = ''{"colorBlindMode":"true","reducedMotion":1}''\<close>

definition text_dark_medium :: string where
  \<open>text_dark_medium = ''{"theme":"dark","fontSize":"medium"}''\<close>

definition text_light_large :: string where
  \<open>text_light_large = ''{"theme":"light","fontSize":"large"}''\<close>

definition text_all_off :: string where
  \<open>text_all_off = ''{"colorBlindMode":false,"reducedMotion":false}''\<close>

definition form_of :: "theme_mode \<Rightarrow> font_size \<Rightarrow> bool \<Rightarrow> bool \<Rightarrow> DisplaySettings" where
  "form_of t fs cb rm =
     \<lparr>currentSettings = Some DEFAULT_THEME_SETTINGS, form_theme = t,
      form_fontSize = font_json fs, form_colorBlindMode = cb, form_reducedMotion = rm,
      saving = True, hasChanges = True\<rparr>"

section \<open>Properties of \<^verbatim>\<open>handleSubmit\<close>\<close>

lemma run_simps [simp]:
  "state_after (a, b, c) = a" "world_after (a, b, c) = b" "trace_of (a, b, c) = c"
  by (simp_all add: state_after_def world_after_def trace_of_def)

text \<open>The four ways through \<^verbatim>\<open>handleSubmit\<close>: no user, the local write fails, the
  remote write fails, success.\<close>

lemma handleSubmit_cases:
  "handleSubmit J out f w =
     (case current_user w of
        None \<Rightarrow> (f\<lparr>saving := False\<rparr>, w, save_failed)
      | Some user \<Rightarrow>
          if \<not> local_write_ok out
          then (f\<lparr>saving := False\<rparr>, w,
                SaveThemeSettings (saved_record f (now_saved out)) # save_failed)
          else if \<not> remote_write_ok out
          then (f\<lparr>saving := False\<rparr>, saveThemeSettings (saved_record f (now_saved out)) w,
                [SaveThemeSettings (saved_record f (now_saved out)),
                 UpdateFields (user_id user) (save_fields J f)] @ save_failed)
          else (f\<lparr>currentSettings := Some (saved_record f (now_applied out)),
                  hasChanges := False, saving := False\<rparr>,
                updateFields (user_id user) (save_fields J f)
                  (saveThemeSettings (saved_record f (now_saved out)) w),
                [SaveThemeSettings (saved_record f (now_saved out)),
                 UpdateFields (user_id user) (save_fields J f),
                 ToastSuccess ''Display settings saved successfully!'']))"
  by (simp add: handleSubmit_def Let_def split: option.split)

text \<open>
  \<^bold>\<open>Claim C2\<close>, as stated, says that a save that fails on a write leaves the in-memory
  state, the local record and the remote fields unchanged.  The local record is not left
  unchanged when it is the remote write that fails: the local write has succeeded by then
  and is not undone.  Here the form holds light, large, true, true over a stored record
  dark, medium, false, false, and the remote write fails: the failure notice is shown and
  the stored record is the new one.
\<close>

theorem failed_save_changes_local_store:
  "ToastError ''Failed to save display settings to your profile''
      \<in> set (trace_of (handleSubmit JSON_ref remote_down edited_form
                (world_of dark_store (Some (user_with None None)))))
   \<and> local_store (world_of dark_store (Some (user_with None None))) = Some dark_store
   \<and> local_store (world_after (handleSubmit JSON_ref remote_down edited_form
                (world_of dark_store (Some (user_with None None)))))
       = Some \<lparr>ident = ''current'', theme = Light, fontSize = JStr ''large'',
               colorBlindMode = True, reducedMotion = True, updatedAt = 1000\<rparr>
   \<and> local_store (world_after (handleSubmit JSON_ref remote_down edited_form
                (world_of dark_store (Some (user_with None None)))))
       \<noteq> local_store (world_of dark_store (Some (user_with None None)))"
  by (simp add: handleSubmit_cases world_of_def user_with_def remote_down_def all_ok_def
      save_failed_def saveThemeSettings_def saved_record_def edited_form_def dark_store_def
      settings_of_def)

text \<open>
  \<^bold>\<open>Claim C2\<close>, amended: when a save by an authenticated user fails on a write, the
  failure is logged and shown as a notice; the form, \<^verbatim>\<open>currentSettings\<close> and
  \<^verbatim>\<open>hasChanges\<close> are as before (only \<^verbatim>\<open>saving\<close> is reset) and the remote user record is
  as before; the local record is as before when the local write failed, and is the record
  just written when the local write succeeded and the remote write failed.
\<close>

theorem failed_save_keeps_memory_and_remote:
  assumes "current_user w = Some u"
    and "\<not> (local_write_ok out \<and> remote_write_ok out)"
  shows "ConsoleError ''Error saving display settings:'' \<in> set (trace_of (handleSubmit J out f w))
    \<and> ToastError ''Failed to save display settings to your profile''
          \<in> set (trace_of (handleSubmit J out f w))
    \<and> state_after (handleSubmit J out f w) = f\<lparr>saving := False\<rparr>
    \<and> current_user (world_after (handleSubmit J out f w)) = current_user w
    \<and> local_store (world_after (handleSubmit J out f w)) =
        (if local_write_ok out then Some (saved_record f (now_saved out)) else local_store w)"
  using assms
  by (auto simp: handleSubmit_cases save_failed_def saveThemeSettings_def)

theorem failed_save_keeps_memory_and_remote_witness:
  "ConsoleError ''Error saving display settings:''
      \<in> set (trace_of (handleSubmit JSON_ref remote_down edited_form
                (world_of dark_store (Some (user_with None None)))))
    \<and> ToastError ''Failed to save display settings to your profile''
      \<in> set (trace_of (handleSubmit JSON_ref remote_down edited_form
                (world_of dark_store (Some (user_with None None)))))
    \<and> state_after (handleSubmit JSON_ref remote_down edited_form
                (world_of dark_store (Some (user_with None None))))
        = edited_form\<lparr>saving := False\<rparr>
    \<and> current_user (world_after (handleSubmit JSON_ref remote_down edited_form
                (world_of dark_store (Some (user_with None None)))))
        = current_user (world_of dark_store (Some (user_with None None)))
    \<and> local_store (world_after (handleSubmit JSON_ref remote_down edited_form
                (world_of dark_store (Some (user_with None None)))))
        = (if local_write_ok remote_down
           then Some (saved_record edited_form (now_saved remote_down))
           else local_store (world_of dark_store (Some (user_with None None))))"
proof -
  have u: "current_user (world_of dark_store (Some (user_with None None)))
             = Some (user_with None None)"
    by (simp add: world_of_def)
  have fails: "\<not> (local_write_ok remote_down \<and> remote_write_ok remote_down)"
    by (simp add: remote_down_def all_ok_def)
  show ?thesis
    by (rule failed_save_keeps_memory_and_remote [OF u fails])
qed

text \<open>
  \<^bold>\<open>Claim C8\<close>: in every run of \<^verbatim>\<open>handleSubmit\<close> the store writes attempted are, in
  this order, the local write and then the remote write (none without a user, the local
  one alone when it fails), so no remote write comes before the local one.  When the remote
  write fails after the local write succeeded, the trace holds that one local write and
  that one remote write (no retry, no compensating write), the local store keeps the new
  record and the remote record is as before: the two stores differ.
\<close>

theorem save_writes_local_then_remote:
  "filter is_store_write (trace_of (handleSubmit J out f w)) =
      (case current_user w of
         None \<Rightarrow> []
       | Some user \<Rightarrow>
           if local_write_ok out
           then [SaveThemeSettings (saved_record f (now_saved out)),
                 UpdateFields (user_id user) (save_fields J f)]
           else [SaveThemeSettings (saved_record f (now_saved out))])
   \<and> filter is_update
        (takeWhile (\<lambda>e. \<not> is_local_write e) (trace_of (handleSubmit J out f w))) = []
   \<and> (current_user w = Some u \<and> local_write_ok out \<and> \<not> remote_write_ok out \<longrightarrow>
        filter is_local_write (trace_of (handleSubmit J out f w))
          = [SaveThemeSettings (saved_record f (now_saved out))]
        \<and> filter is_update (trace_of (handleSubmit J out f w))
          = [UpdateFields (user_id u) (save_fields J f)]
        \<and> local_store (world_after (handleSubmit J out f w))
          = Some (saved_record f (now_saved out))
        \<and> current_user (world_after (handleSubmit J out f w)) = Some u)"
  by (auto simp: handleSubmit_cases save_failed_def saveThemeSettings_def split: option.split)

theorem save_writes_local_then_remote_witness:
  "filter is_local_write (trace_of (handleSubmit JSON_ref remote_down edited_form
        (world_of dark_store (Some (user_with None None)))))
     = [SaveThemeSettings (saved_record edited_form (now_saved remote_down))]
   \<and> filter is_update (trace_of (handleSubmit JSON_ref remote_down edited_form
        (world_of dark_store (Some (user_with None None)))))
     = [UpdateFields (user_id (user_with None None)) (save_fields JSON_ref edited_form)]
   \<and> local_store (world_after (handleSubmit JSON_ref remote_down edited_form
        (world_of dark_store (Some (user_with None None)))))
     = Some (saved_record edited_form (now_saved remote_down))
   \<and> current_user (world_after (handleSubmit JSON_ref remote_down edited_form
        (world_of dark_store (Some (user_with None None)))))
     = Some (user_with None None)"
proof -
  have h: "current_user (world_of dark_store (Some (user_with None None)))
             = Some (user_with None None)
           \<and> local_write_ok remote_down \<and> \<not> remote_write_ok remote_down"
    by (simp add: world_of_def remote_down_def all_ok_def)
  from save_writes_local_then_remote
         [of JSON_ref remote_down edited_form
             "world_of dark_store (Some (user_with None None))" "user_with None None"]
  show ?thesis using h by blast
qed

section \<open>Properties of \<^verbatim>\<open>loadPreferences\<close>\<close>

lemma includes_theme_truthy: "includes_theme x \<Longrightarrow> truthy x"
  by (auto simp: includes_theme_def)

lemma includes_theme_name [simp]: "includes_theme (Some (JStr (theme_name t)))"
  by (cases t) (simp_all add: includes_theme_def)

lemma cast_theme_name [simp]: "cast_theme (Some (JStr (theme_name t))) = t"
  by (cases t) (simp_all add: cast_theme_def)

lemma theme_name_inj [simp]: "(theme_name a = theme_name b) = (a = b)"
  by (cases a; cases b) simp_all

lemma display_decoded_flag:
  "snd (display_decoded ts v f) = (\<not> includes_theme (get_member v ''theme''))"
  by (auto simp: display_decoded_def Let_def split: option.split dest: includes_theme_truthy)

lemma display_decoded_theme:
  "form_theme (fst (display_decoded ts v f)) =
     (if includes_theme (get_member v ''theme'')
         \<and> get_member v ''theme'' \<noteq> Some (JStr (theme_name (theme ts)))
      then cast_theme (get_member v ''theme'') else form_theme f)"
  by (auto simp: display_decoded_def Let_def split: option.split dest: includes_theme_truthy)

lemma display_decoded_fontSize:
  "form_fontSize (fst (display_decoded ts v f)) =
     (case get_member v ''fontSize'' of
        None \<Rightarrow> form_fontSize f
      | Some x \<Rightarrow> if truthy (Some x) \<and> \<not> strict_eq x (fontSize ts) then x else form_fontSize f)"
  by (auto simp: display_decoded_def Let_def split: option.split)

lemma display_decoded_hasChanges:
  "hasChanges (fst (display_decoded ts v f)) =
     (hasChanges f
      \<or> (includes_theme (get_member v ''theme'')
          \<and> get_member v ''theme'' \<noteq> Some (JStr (theme_name (theme ts))))
      \<or> (case get_member v ''fontSize'' of
            None \<Rightarrow> False
          | Some x \<Rightarrow> truthy (Some x) \<and> \<not> strict_eq x (fontSize ts)))"
  by (auto simp: display_decoded_def Let_def split: option.split dest: includes_theme_truthy)

lemma display_decoded_frame:
  "form_colorBlindMode (fst (display_decoded ts v f)) = form_colorBlindMode f"
  "form_reducedMotion (fst (display_decoded ts v f)) = form_reducedMotion f"
  "currentSettings (fst (display_decoded ts v f)) = currentSettings f"
  "saving (fst (display_decoded ts v f)) = saving f"
  by (auto simp: display_decoded_def Let_def split: option.split)

lemma accessibility_decoded_colorBlindMode:
  "form_colorBlindMode (accessibility_decoded ts v f) =
     (case get_member v ''colorBlindMode'' of
        Some (JBool b) \<Rightarrow> if b \<noteq> colorBlindMode ts then b else form_colorBlindMode f
      | _ \<Rightarrow> form_colorBlindMode f)"
  by (simp add: accessibility_decoded_def Let_def split: option.split json.split)

lemma accessibility_decoded_reducedMotion:
  "form_reducedMotion (accessibility_decoded ts v f) =
     (case get_member v ''reducedMotion'' of
        Some (JBool b) \<Rightarrow> if b \<noteq> reducedMotion ts then b else form_reducedMotion f
      | _ \<Rightarrow> form_reducedMotion f)"
  by (simp add: accessibility_decoded_def Let_def split: option.split json.split)

lemma accessibility_decoded_hasChanges:
  "hasChanges (accessibility_decoded ts v f) =
     (hasChanges f
      \<or> (case get_member v ''colorBlindMode'' of
            Some (JBool b) \<Rightarrow> b \<noteq> colorBlindMode ts | _ \<Rightarrow> False)
      \<or> (case get_member v ''reducedMotion'' of
            Some (JBool b) \<Rightarrow> b \<noteq> reducedMotion ts | _ \<Rightarrow> False))"
  by (simp add: accessibility_decoded_def Let_def split: option.split json.split)

lemma accessibility_decoded_frame:
  "form_theme (accessibility_decoded ts v f) = form_theme f"
  "form_fontSize (accessibility_decoded ts v f) = form_fontSize f"
  "currentSettings (accessibility_decoded ts v f) = currentSettings f"
  "saving (accessibility_decoded ts v f) = saving f"
  by (simp_all add: accessibility_decoded_def Let_def split: option.split json.split)

lemma display_check_flag:
  "fst (snd (display_check J ts u f)) = needs_display J (display_preferences u)"
  by (simp add: display_check_def needs_display_def display_decoded_flag split_beta
      split: option.split)

lemma accessibility_check_flag:
  "fst (snd (accessibility_check J ts u f)) = needs_accessibility J (accessibility_settings u)"
  by (simp add: accessibility_check_def needs_accessibility_def split: option.split)

lemma display_check_decoded:
  assumes "display_preferences u = Some s" "\<not> js_blank s" "JSON_parse J s = Some v" "v \<noteq> JNull"
  shows "display_check J ts u f =
           (fst (display_decoded ts v f), snd (display_decoded ts v f), [])"
  using assms by (simp add: display_check_def split_beta)

lemma accessibility_check_decoded:
  assumes "accessibility_settings u = Some s" "\<not> js_blank s" "JSON_parse J s = Some v"
    "v \<noteq> JNull"
  shows "accessibility_check J ts u f = (accessibility_decoded ts v f, False, [])"
  using assms by (simp add: accessibility_check_def)

lemma display_check_frame:
  "form_colorBlindMode (fst (display_check J ts u f)) = form_colorBlindMode f"
  "form_reducedMotion (fst (display_check J ts u f)) = form_reducedMotion f"
  "currentSettings (fst (display_check J ts u f)) = currentSettings f"
  "saving (fst (display_check J ts u f)) = saving f"
  by (simp_all add: display_check_def display_decoded_frame split_beta split: option.split)

lemma accessibility_check_frame:
  "form_theme (fst (accessibility_check J ts u f)) = form_theme f"
  "form_fontSize (fst (accessibility_check J ts u f)) = form_fontSize f"
  "currentSettings (fst (accessibility_check J ts u f)) = currentSettings f"
  "saving (fst (accessibility_check J ts u f)) = saving f"
  by (simp_all add: accessibility_check_def accessibility_decoded_frame split: option.split)

lemma accessibility_check_keeps_changes:
  "hasChanges f \<Longrightarrow> hasChanges (fst (accessibility_check J ts u f))"
  by (simp add: accessibility_check_def accessibility_decoded_hasChanges split: option.split)

lemma check_traces:
  "filter is_store_write (snd (snd (display_check J ts u f))) = []"
  "filter is_store_write (snd (snd (accessibility_check J ts u f))) = []"
  by (simp_all add: display_check_def accessibility_check_def split_beta split: option.split)

lemma updateData_empty:
  "(updateData J r d a = []) = (\<not> d \<and> \<not> a)"
  by (simp add: updateData_def)

text \<open>The structure of a run of loadPreferences for an authenticated user.\<close>

lemma loadPreferences_state:
  assumes "read_ok out" "current_user w = Some u"
  shows "state_after (loadPreferences J out r w) =
           fst (accessibility_check J (getThemeSettings w) u
             (fst (display_check J (getThemeSettings w) u (show_settings (getThemeSettings w) r))))"
  using assms by (simp add: loadPreferences_def Let_def split_beta)

lemma loadPreferences_world:
  assumes "read_ok out" "current_user w = Some u"
  shows "world_after (loadPreferences J out r w) =
           (if (needs_display J (display_preferences u)
                \<or> needs_accessibility J (accessibility_settings u)) \<and> remote_write_ok out
            then updateFields (user_id u)
                   (updateData J r (needs_display J (display_preferences u))
                      (needs_accessibility J (accessibility_settings u))) w
            else w)"
  using assms
  by (auto simp: loadPreferences_def Let_def split_beta initializeDefaultSettings_def
      updateData_empty display_check_flag accessibility_check_flag)

lemma is_update_store: "filter is_store_write evs = [] \<Longrightarrow> filter is_update evs = []"
proof (induction evs)
  case Nil
  then show ?case by simp
next
  case (Cons e evs)
  then show ?case by (cases e) (auto split: if_splits)
qed

lemma is_local_store: "filter is_store_write evs = [] \<Longrightarrow> filter is_local_write evs = []"
proof (induction evs)
  case Nil
  then show ?case by simp
next
  case (Cons e evs)
  then show ?case by (cases e) (auto split: if_splits)
qed

lemma loadPreferences_updates:
  assumes "read_ok out" "current_user w = Some u"
  shows "filter is_update (trace_of (loadPreferences J out r w)) =
           (if needs_display J (display_preferences u)
               \<or> needs_accessibility J (accessibility_settings u)
            then [UpdateFields (user_id u)
                   (updateData J r (needs_display J (display_preferences u))
                      (needs_accessibility J (accessibility_settings u)))]
            else [])"
  using assms
  by (auto simp: loadPreferences_def Let_def split_beta initializeDefaultSettings_def
      updateData_empty display_check_flag accessibility_check_flag
      check_traces [THEN is_update_store])

lemma loadPreferences_no_local_write:
  "filter is_local_write (trace_of (loadPreferences J out r w)) = []"
  by (auto simp: loadPreferences_def Let_def split_beta initializeDefaultSettings_def
      check_traces [THEN is_local_store] split: option.split)

lemma updateFields_local [simp]: "local_store (updateFields i fs w) = local_store w"
  by (simp add: updateFields_def split: option.split)

lemma loadPreferences_local_store:
  "local_store (world_after (loadPreferences J out r w)) = local_store w"
  by (auto simp: loadPreferences_def Let_def split_beta initializeDefaultSettings_def
      split: option.split)


lemma remote_writes_updates:
  "remote_writes evs = concat (map written_fields (filter is_update evs))"
proof (induction evs)
  case Nil
  then show ?case by (simp add: remote_writes_def)
next
  case (Cons e evs)
  then show ?case by (cases e) (simp_all add: remote_writes_def)
qed

lemma get_member_not_null: "get_member v k = Some x \<Longrightarrow> v \<noteq> JNull"
  by auto

lemma strict_eq_same: "strict_eq a b \<Longrightarrow> a = b"
  by (cases a; cases b) simp_all

text \<open>
  \<^bold>\<open>Claim C5\<close>: in reconciliation a remote value that is valid and differs from the
  local one is the value of the working form, and unsaved changes are marked: a theme
  \<^verbatim>\<open>light\<close> or \<^verbatim>\<open>dark\<close>, one of the four font sizes, a boolean \<^verbatim>\<open>colorBlindMode\<close>, a
  boolean \<^verbatim>\<open>reducedMotion\<close>.  Reconciliation makes no local write: the record of the
  Local Preference Store is the one it was.  The witness is the example of the
  specification: remote \<^verbatim>\<open>{"theme":"light","fontSize":"medium"}\<close> over a stored record
  dark, small gives a form light, medium with unsaved changes, and the stored record stays.
\<close>

theorem remote_wins_local_untouched:
  assumes rd: "read_ok out" and us: "current_user w = Some u"
  shows "(display_preferences u = Some s \<and> \<not> js_blank s \<and> JSON_parse J s = Some v
            \<and> get_member v ''theme'' = Some (JStr (theme_name t))
            \<and> t \<noteq> theme (getThemeSettings w)
          \<longrightarrow> form_theme (state_after (reconcile J out w)) = t
              \<and> hasChanges (state_after (reconcile J out w)))
    \<and> (display_preferences u = Some s \<and> \<not> js_blank s \<and> JSON_parse J s = Some v
            \<and> get_member v ''fontSize'' = Some (font_json fs)
            \<and> font_json fs \<noteq> fontSize (getThemeSettings w)
          \<longrightarrow> form_fontSize (state_after (reconcile J out w)) = font_json fs
              \<and> hasChanges (state_after (reconcile J out w)))
    \<and> (accessibility_settings u = Some s' \<and> \<not> js_blank s' \<and> JSON_parse J s' = Some v'
            \<and> get_member v' ''colorBlindMode'' = Some (JBool cb)
            \<and> cb \<noteq> colorBlindMode (getThemeSettings w)
          \<longrightarrow> form_colorBlindMode (state_after (reconcile J out w)) = cb
              \<and> hasChanges (state_after (reconcile J out w)))
    \<and> (accessibility_settings u = Some s' \<and> \<not> js_blank s' \<and> JSON_parse J s' = Some v'
            \<and> get_member v' ''reducedMotion'' = Some (JBool rm)
            \<and> rm \<noteq> reducedMotion (getThemeSettings w)
          \<longrightarrow> form_reducedMotion (state_after (reconcile J out w)) = rm
              \<and> hasChanges (state_after (reconcile J out w)))
    \<and> local_store (world_after (reconcile J out w)) = local_store w
    \<and> filter is_local_write (trace_of (reconcile J out w)) = []"
proof -
  let ?ts = "getThemeSettings w"
  let ?f1 = "show_settings ?ts initial_state"
  let ?f2 = "fst (display_check J ?ts u ?f1)"
  have st: "state_after (reconcile J out w) = fst (accessibility_check J ?ts u ?f2)"
    by (simp add: reconcile_def loadPreferences_state [OF rd us])
  have theme_part: "form_theme (state_after (reconcile J out w)) = t
      \<and> hasChanges (state_after (reconcile J out w))"
    if "display_preferences u = Some s" "\<not> js_blank s" "JSON_parse J s = Some v"
      "get_member v ''theme'' = Some (JStr (theme_name t))" "t \<noteq> theme ?ts"
  proof -
    have dc: "?f2 = fst (display_decoded ?ts v ?f1)"
      using that by (simp add: display_check_decoded get_member_not_null)
    have "form_theme ?f2 = t" "hasChanges ?f2"
      using that by (simp_all add: dc display_decoded_theme display_decoded_hasChanges)
    then show ?thesis
      by (simp add: st accessibility_check_frame accessibility_check_keeps_changes)
  qed
  have font_part: "form_fontSize (state_after (reconcile J out w)) = font_json fs
      \<and> hasChanges (state_after (reconcile J out w))"
    if "display_preferences u = Some s" "\<not> js_blank s" "JSON_parse J s = Some v"
      "get_member v ''fontSize'' = Some (font_json fs)" "font_json fs \<noteq> fontSize ?ts"
  proof -
    have dc: "?f2 = fst (display_decoded ?ts v ?f1)"
      using that by (simp add: display_check_decoded get_member_not_null)
    have tr: "truthy (Some (font_json fs))"
      by (cases fs) simp_all
    have ne: "\<not> strict_eq (font_json fs) (fontSize ?ts)"
      using that(5) strict_eq_same by blast
    have "form_fontSize ?f2 = font_json fs" "hasChanges ?f2"
      using that(4) tr ne by (simp_all add: dc display_decoded_fontSize display_decoded_hasChanges)
    then show ?thesis
      by (simp add: st accessibility_check_frame accessibility_check_keeps_changes)
  qed
  have acc: "state_after (reconcile J out w) = accessibility_decoded ?ts v' ?f2"
    if "accessibility_settings u = Some s'" "\<not> js_blank s'" "JSON_parse J s' = Some v'"
      "v' \<noteq> JNull"
    using that by (simp add: st accessibility_check_decoded)
  have cb_part: "form_colorBlindMode (state_after (reconcile J out w)) = cb
      \<and> hasChanges (state_after (reconcile J out w))"
    if "accessibility_settings u = Some s'" "\<not> js_blank s'" "JSON_parse J s' = Some v'"
      "get_member v' ''colorBlindMode'' = Some (JBool cb)" "cb \<noteq> colorBlindMode ?ts"
    using that
    by (simp add: acc get_member_not_null accessibility_decoded_colorBlindMode
        accessibility_decoded_hasChanges)
  have rm_part: "form_reducedMotion (state_after (reconcile J out w)) = rm
      \<and> hasChanges (state_after (reconcile J out w))"
    if "accessibility_settings u = Some s'" "\<not> js_blank s'" "JSON_parse J s' = Some v'"
      "get_member v' ''reducedMotion'' = Some (JBool rm)" "rm \<noteq> reducedMotion ?ts"
    using that
    by (simp add: acc get_member_not_null accessibility_decoded_reducedMotion
        accessibility_decoded_hasChanges)
  have frame: "local_store (world_after (reconcile J out w)) = local_store w"
    "filter is_local_write (trace_of (reconcile J out w)) = []"
    by (simp_all add: reconcile_def loadPreferences_local_store loadPreferences_no_local_write)
  from theme_part font_part cb_part rm_part frame show ?thesis
    by blast
qed

lemma blank_examples:
  "\<not> js_blank text_light_medium" "\<not> js_blank text_all_on" "\<not> js_blank text_purple"
  "\<not> js_blank text_empty_font" "\<not> js_blank text_gigantic" "\<not> js_blank text_not_booleans"
  by (simp_all add: js_blank_def js_space_def text_light_medium_def text_all_on_def
      text_purple_def text_empty_font_def text_gigantic_def text_not_booleans_def)

lemma parse_examples:
  "JSON_parse JSON_ref text_light_medium
     = Some (JObj [(''theme'', JStr ''light''), (''fontSize'', JStr ''medium'')])"
  "JSON_parse JSON_ref text_all_on
     = Some (JObj [(''colorBlindMode'', JBool True), (''reducedMotion'', JBool True)])"
  "JSON_parse JSON_ref text_purple = Some (JObj [(''theme'', JStr ''purple'')])"
  "JSON_parse JSON_ref text_empty_font
     = Some (JObj [(''theme'', JStr ''dark''), (''fontSize'', JStr [])])"
  "JSON_parse JSON_ref text_gigantic
     = Some (JObj [(''theme'', JStr ''dark''), (''fontSize'', JStr ''gigantic'')])"
  "JSON_parse JSON_ref text_not_booleans
     = Some (JObj [(''colorBlindMode'', JStr ''true''), (''reducedMotion'', JNum 1)])"
  by code_simp+

theorem remote_wins_local_untouched_witness:
  "form_theme (state_after (reconcile JSON_ref all_ok
       (world_of small_store (Some (user_with (Some text_light_medium) (Some text_all_on))))))
     = Light
   \<and> form_fontSize (state_after (reconcile JSON_ref all_ok
       (world_of small_store (Some (user_with (Some text_light_medium) (Some text_all_on))))))
     = JStr ''medium''
   \<and> form_colorBlindMode (state_after (reconcile JSON_ref all_ok
       (world_of small_store (Some (user_with (Some text_light_medium) (Some text_all_on))))))
   \<and> form_reducedMotion (state_after (reconcile JSON_ref all_ok
       (world_of small_store (Some (user_with (Some text_light_medium) (Some text_all_on))))))
   \<and> hasChanges (state_after (reconcile JSON_ref all_ok
       (world_of small_store (Some (user_with (Some text_light_medium) (Some text_all_on))))))
   \<and> local_store (world_after (reconcile JSON_ref all_ok
       (world_of small_store (Some (user_with (Some text_light_medium) (Some text_all_on))))))
     = Some small_store
   \<and> filter is_local_write (trace_of (reconcile JSON_ref all_ok
       (world_of small_store (Some (user_with (Some text_light_medium) (Some text_all_on))))))
     = []"
proof -
  let ?u = "user_with (Some text_light_medium) (Some text_all_on)"
  let ?w = "world_of small_store (Some ?u)"
  let ?v = "JObj [(''theme'', JStr ''light''), (''fontSize'', JStr ''medium'')]"
  let ?v' = "JObj [(''colorBlindMode'', JBool True), (''reducedMotion'', JBool True)]"
  have rd: "read_ok all_ok"
    by (simp add: all_ok_def)
  have us: "current_user ?w = Some ?u"
    by (simp add: world_of_def)
  have base: "getThemeSettings ?w = small_store"
    by (simp add: getThemeSettings_def world_of_def)
  have h1: "display_preferences ?u = Some text_light_medium \<and> \<not> js_blank text_light_medium
      \<and> JSON_parse JSON_ref text_light_medium = Some ?v
      \<and> get_member ?v ''theme'' = Some (JStr (theme_name Light))
      \<and> Light \<noteq> theme (getThemeSettings ?w)"
    by (simp add: user_with_def blank_examples parse_examples getThemeSettings_def world_of_def
        small_store_def settings_of_def)
  have h2: "display_preferences ?u = Some text_light_medium \<and> \<not> js_blank text_light_medium
      \<and> JSON_parse JSON_ref text_light_medium = Some ?v
      \<and> get_member ?v ''fontSize'' = Some (font_json Medium)
      \<and> font_json Medium \<noteq> fontSize (getThemeSettings ?w)"
    by (simp add: user_with_def blank_examples parse_examples getThemeSettings_def world_of_def
        small_store_def settings_of_def)
  have h3: "accessibility_settings ?u = Some text_all_on \<and> \<not> js_blank text_all_on
      \<and> JSON_parse JSON_ref text_all_on = Some ?v'
      \<and> get_member ?v' ''colorBlindMode'' = Some (JBool True)
      \<and> True \<noteq> colorBlindMode (getThemeSettings ?w)"
    by (simp add: user_with_def blank_examples parse_examples getThemeSettings_def world_of_def
        small_store_def settings_of_def)
  have h4: "accessibility_settings ?u = Some text_all_on \<and> \<not> js_blank text_all_on
      \<and> JSON_parse JSON_ref text_all_on = Some ?v'
      \<and> get_member ?v' ''reducedMotion'' = Some (JBool True)
      \<and> True \<noteq> reducedMotion (getThemeSettings ?w)"
    by (simp add: user_with_def blank_examples parse_examples getThemeSettings_def world_of_def
        small_store_def settings_of_def)
  have st: "local_store ?w = Some small_store"
    by (simp add: world_of_def)
  from remote_wins_local_untouched [OF rd us, where J = JSON_ref and s = text_light_medium
      and v = ?v and t = Light and fs = Medium and s' = text_all_on and v' = ?v'
      and cb = True and rm = True]
    h1 h2 h3 h4 st
  show ?thesis
    by simp
qed

lemma loadPreferences_remote_keys:
  assumes "read_ok out" "current_user w = Some u"
  shows "map fst (remote_writes (trace_of (loadPreferences J out r w))) =
           (if needs_display J (display_preferences u) then [''display_preferences''] else [])
           @ (if needs_accessibility J (accessibility_settings u)
              then [''accessibility_settings''] else [])"
  by (simp add: remote_writes_updates loadPreferences_updates [OF assms] updateData_def)

text \<open>
  \<^bold>\<open>Claim C6\<close>: for a display field that decodes, the working theme leaves the local
  theme only for a remote theme that is \<^verbatim>\<open>light\<close> or \<^verbatim>\<open>dark\<close> (it differs from the
  local one, since the working theme does), and unsaved changes are then marked.  If the
  remote theme is present and is neither (\<^verbatim>\<open>purple\<close>), the working theme is the local
  one, \<^verbatim>\<open>needsDisplayPrefsUpdate\<close> is set, and the remote write of the run contains
  \<^verbatim>\<open>display_preferences\<close>.
\<close>

theorem remote_theme_validated:
  assumes rd: "read_ok out" and us: "current_user w = Some u"
    and dp: "display_preferences u = Some s" and nb: "\<not> js_blank s"
    and ps: "JSON_parse J s = Some v"
  shows "(form_theme (state_after (reconcile J out w)) \<noteq> theme (getThemeSettings w) \<longrightarrow>
            get_member v ''theme''
              = Some (JStr (theme_name (form_theme (state_after (reconcile J out w)))))
            \<and> includes_theme (get_member v ''theme'')
            \<and> hasChanges (state_after (reconcile J out w)))
    \<and> (get_member v ''theme'' = Some x \<and> \<not> includes_theme (Some x) \<longrightarrow>
            form_theme (state_after (reconcile J out w)) = theme (getThemeSettings w)
            \<and> fst (snd (display_check J (getThemeSettings w) u
                  (show_settings (getThemeSettings w) initial_state)))
            \<and> ''display_preferences''
                \<in> set (map fst (remote_writes (trace_of (reconcile J out w)))))"
proof -
  let ?ts = "getThemeSettings w"
  let ?f1 = "show_settings ?ts initial_state"
  let ?f2 = "fst (display_check J ?ts u ?f1)"
  have st: "form_theme (state_after (reconcile J out w)) = form_theme ?f2"
    by (simp add: reconcile_def loadPreferences_state [OF rd us] accessibility_check_frame)
  have hc: "hasChanges ?f2 \<Longrightarrow> hasChanges (state_after (reconcile J out w))"
    by (simp add: reconcile_def loadPreferences_state [OF rd us]
        accessibility_check_keeps_changes)
  have f1: "form_theme ?f1 = theme ?ts"
    by (simp add: show_settings_def)
  have applied: "get_member v ''theme'' = Some (JStr (theme_name (form_theme ?f2)))
      \<and> includes_theme (get_member v ''theme'') \<and> hasChanges ?f2"
    if ne: "form_theme ?f2 \<noteq> theme ?ts"
  proof (cases "v = JNull")
    case True
    then have "?f2 = ?f1"
      using dp nb ps by (simp add: display_check_def)
    with ne f1 show ?thesis by simp
  next
    case False
    then have dc: "?f2 = fst (display_decoded ?ts v ?f1)"
      using dp nb ps by (simp add: display_check_decoded)
    from ne have inc: "includes_theme (get_member v ''theme'')"
      and dif: "get_member v ''theme'' \<noteq> Some (JStr (theme_name (theme ?ts)))"
      by (auto simp: dc display_decoded_theme f1 split: if_splits)
    then have "form_theme ?f2 = cast_theme (get_member v ''theme'')"
      by (simp add: dc display_decoded_theme)
    moreover from inc have "get_member v ''theme''
        = Some (JStr (theme_name (cast_theme (get_member v ''theme''))))"
      by (auto simp: includes_theme_def cast_theme_def)
    ultimately show ?thesis
      using inc dif by (simp add: dc display_decoded_hasChanges)
  qed
  have invalid: "form_theme ?f2 = theme ?ts
      \<and> fst (snd (display_check J ?ts u ?f1))
      \<and> ''display_preferences'' \<in> set (map fst (remote_writes (trace_of (reconcile J out w))))"
    if mem: "get_member v ''theme'' = Some x" and bad: "\<not> includes_theme (Some x)"
  proof -
    have nn: "v \<noteq> JNull"
      using mem by (rule get_member_not_null)
    have dc: "?f2 = fst (display_decoded ?ts v ?f1)"
      using dp nb ps nn by (simp add: display_check_decoded)
    have flag: "needs_display J (display_preferences u)"
      using dp nb ps nn mem bad by (simp add: needs_display_def)
    have "form_theme ?f2 = theme ?ts"
      using mem bad by (simp add: dc display_decoded_theme f1)
    moreover have "fst (snd (display_check J ?ts u ?f1))"
      using flag by (simp add: display_check_flag)
    moreover have "''display_preferences''
        \<in> set (map fst (remote_writes (trace_of (reconcile J out w))))"
      using flag by (simp add: reconcile_def loadPreferences_remote_keys [OF rd us])
    ultimately show ?thesis by simp
  qed
  from applied invalid st hc show ?thesis
    by metis
qed

theorem remote_theme_validated_witness:
  "form_theme (state_after (reconcile JSON_ref all_ok
       (world_of light_store (Some (user_with (Some text_purple) (Some text_all_on))))))
     = theme (getThemeSettings
         (world_of light_store (Some (user_with (Some text_purple) (Some text_all_on)))))
   \<and> fst (snd (display_check JSON_ref
        (getThemeSettings
           (world_of light_store (Some (user_with (Some text_purple) (Some text_all_on)))))
        (user_with (Some text_purple) (Some text_all_on))
        (show_settings
           (getThemeSettings
              (world_of light_store (Some (user_with (Some text_purple) (Some text_all_on)))))
           initial_state)))
   \<and> ''display_preferences''
        \<in> set (map fst (remote_writes (trace_of (reconcile JSON_ref all_ok
             (world_of light_store (Some (user_with (Some text_purple) (Some text_all_on))))))))
   \<and> form_theme (state_after (reconcile JSON_ref all_ok
       (world_of small_store (Some (user_with (Some text_light_medium) (Some text_all_on))))))
     = Light
   \<and> theme (getThemeSettings
       (world_of small_store (Some (user_with (Some text_light_medium) (Some text_all_on)))))
     = Dark
   \<and> includes_theme
        (get_member (JObj [(''theme'', JStr ''light''), (''fontSize'', JStr ''medium'')]) ''theme'')
   \<and> hasChanges (state_after (reconcile JSON_ref all_ok
       (world_of small_store (Some (user_with (Some text_light_medium) (Some text_all_on))))))"
proof -
  let ?u = "user_with (Some text_purple) (Some text_all_on)"
  let ?w = "world_of light_store (Some ?u)"
  let ?u' = "user_with (Some text_light_medium) (Some text_all_on)"
  let ?w' = "world_of small_store (Some ?u')"
  have rd: "read_ok all_ok"
    by (simp add: all_ok_def)
  have us: "current_user ?w = Some ?u" "current_user ?w' = Some ?u'"
    by (simp_all add: world_of_def)
  have dp: "display_preferences ?u = Some text_purple"
    "display_preferences ?u' = Some text_light_medium"
    by (simp_all add: user_with_def)
  have h: "get_member (JObj [(''theme'', JStr ''purple'')]) ''theme'' = Some (JStr ''purple'')
      \<and> \<not> includes_theme (Some (JStr ''purple''))"
    by (simp add: includes_theme_def)
  have applied: "form_theme (state_after (reconcile JSON_ref all_ok ?w')) = Light"
    "theme (getThemeSettings ?w') = Dark"
    by code_simp+
  then have h': "form_theme (state_after (reconcile JSON_ref all_ok ?w'))
      \<noteq> theme (getThemeSettings ?w')"
    by simp
  from remote_theme_validated [OF rd us(1) dp(1) blank_examples(3) parse_examples(3),
      where x = "JStr ''purple''"] h
    remote_theme_validated [OF rd us(2) dp(2) blank_examples(1) parse_examples(1)] h' applied
  show ?thesis
    by blast
qed

text \<open>
  \<^bold>\<open>Claim C7\<close>, as stated, says that every present font size that differs from the
  local one is applied.  Line 66 tests \<^verbatim>\<open>userPrefs.fontSize &&\<close> first, so a present
  value that is falsy (the empty string, \<^verbatim>\<open>0\<close>, \<^verbatim>\<open>false\<close>, \<^verbatim>\<open>null\<close>) is not applied.
  Here the remote field is \<^verbatim>\<open>{"theme":"dark","fontSize":""}\<close> over a stored record dark,
  medium: the font size \<^verbatim>\<open>""\<close> is present and differs from \<^verbatim>\<open>medium\<close>, and the working
  font size stays \<^verbatim>\<open>medium\<close>.
\<close>

theorem empty_font_size_not_applied:
  "display_preferences (user_with (Some text_empty_font) (Some text_all_on))
     = Some text_empty_font
   \<and> JSON_parse JSON_ref text_empty_font
     = Some (JObj [(''theme'', JStr ''dark''), (''fontSize'', JStr [])])
   \<and> get_member (JObj [(''theme'', JStr ''dark''), (''fontSize'', JStr [])]) ''fontSize''
     = Some (JStr [])
   \<and> fontSize (getThemeSettings
        (world_of dark_store (Some (user_with (Some text_empty_font) (Some text_all_on)))))
     = JStr ''medium''
   \<and> form_fontSize (state_after (reconcile JSON_ref all_ok
        (world_of dark_store (Some (user_with (Some text_empty_font) (Some text_all_on))))))
     = JStr ''medium''
   \<and> form_theme (state_after (reconcile JSON_ref all_ok
        (world_of dark_store (Some (user_with (Some text_empty_font) (Some text_all_on))))))
     = Dark"
  by code_simp

lemma falsy_values:
  "(\<not> truthy (Some x)) = (x = JStr [] \<or> x = JNum 0 \<or> x = JBool False \<or> x = JNull)"
  by (cases x) auto

text \<open>
  \<^bold>\<open>Claim C7\<close>, amended: for a display field that decodes, every font size that is
  present, truthy and different from the local font size becomes the working font size
  and marks unsaved changes, whatever it is: there is no validation against the four font
  sizes.  A font size that is present and falsy, which is the empty string, \<^verbatim>\<open>0\<close>,
  \<^verbatim>\<open>false\<close> or \<^verbatim>\<open>null\<close>, is left unapplied: the working font size is the local one.
  The witness applies \<^verbatim>\<open>gigantic\<close> and leaves \<^verbatim>\<open>""\<close> unapplied.
\<close>

theorem font_size_applied_when_truthy:
  assumes rd: "read_ok out" and us: "current_user w = Some u"
    and dp: "display_preferences u = Some s" and nb: "\<not> js_blank s"
    and ps: "JSON_parse J s = Some v"
    and mem: "get_member v ''fontSize'' = Some x"
  shows "(truthy (Some x) \<and> x \<noteq> fontSize (getThemeSettings w) \<longrightarrow>
            form_fontSize (state_after (reconcile J out w)) = x
            \<and> hasChanges (state_after (reconcile J out w)))
    \<and> (x = JStr [] \<or> x = JNum 0 \<or> x = JBool False \<or> x = JNull \<longrightarrow>
            form_fontSize (state_after (reconcile J out w)) = fontSize (getThemeSettings w))
    \<and> (truthy (Some x) \<or> x = JStr [] \<or> x = JNum 0 \<or> x = JBool False \<or> x = JNull)"
proof -
  let ?ts = "getThemeSettings w"
  let ?f1 = "show_settings ?ts initial_state"
  let ?f2 = "fst (display_check J ?ts u ?f1)"
  have nn: "v \<noteq> JNull"
    using mem by (rule get_member_not_null)
  have dc: "?f2 = fst (display_decoded ?ts v ?f1)"
    using dp nb ps nn by (simp add: display_check_decoded)
  have st: "form_fontSize (state_after (reconcile J out w)) = form_fontSize ?f2"
    by (simp add: reconcile_def loadPreferences_state [OF rd us] accessibility_check_frame)
  have hc: "hasChanges ?f2 \<Longrightarrow> hasChanges (state_after (reconcile J out w))"
    by (simp add: reconcile_def loadPreferences_state [OF rd us]
        accessibility_check_keeps_changes)
  have applied: "form_fontSize ?f2 = x \<and> hasChanges ?f2"
    if tr: "truthy (Some x)" and ne: "x \<noteq> fontSize ?ts"
  proof -
    have "\<not> strict_eq x (fontSize ?ts)"
      using ne strict_eq_same by blast
    then show ?thesis
      using mem tr by (simp add: dc display_decoded_fontSize display_decoded_hasChanges)
  qed
  have f1: "form_fontSize ?f1 = fontSize ?ts"
    by (simp add: show_settings_def)
  have skipped: "form_fontSize ?f2 = fontSize ?ts" if "\<not> truthy (Some x)"
    using that mem by (simp add: dc display_decoded_fontSize f1)
  from applied skipped st hc falsy_values [of x] show ?thesis
    by metis
qed

theorem font_size_applied_when_truthy_witness:
  "form_fontSize (state_after (reconcile JSON_ref all_ok
       (world_of dark_store (Some (user_with (Some text_gigantic) (Some text_all_on))))))
     = JStr ''gigantic''
   \<and> hasChanges (state_after (reconcile JSON_ref all_ok
       (world_of dark_store (Some (user_with (Some text_gigantic) (Some text_all_on))))))
   \<and> form_fontSize (state_after (reconcile JSON_ref all_ok
       (world_of dark_store (Some (user_with (Some text_empty_font) (Some text_all_on))))))
     = fontSize (getThemeSettings
       (world_of dark_store (Some (user_with (Some text_empty_font) (Some text_all_on)))))
   \<and> fontSize (getThemeSettings
       (world_of dark_store (Some (user_with (Some text_empty_font) (Some text_all_on)))))
     = JStr ''medium''"
proof -
  let ?u = "user_with (Some text_gigantic) (Some text_all_on)"
  let ?w = "world_of dark_store (Some ?u)"
  let ?u' = "user_with (Some text_empty_font) (Some text_all_on)"
  let ?w' = "world_of dark_store (Some ?u')"
  have rd: "read_ok all_ok"
    by (simp add: all_ok_def)
  have us: "current_user ?w = Some ?u" "current_user ?w' = Some ?u'"
    by (simp_all add: world_of_def)
  have dp: "display_preferences ?u = Some text_gigantic"
    "display_preferences ?u' = Some text_empty_font"
    by (simp_all add: user_with_def)
  have mem: "get_member (JObj [(''theme'', JStr ''dark''), (''fontSize'', JStr ''gigantic'')])
      ''fontSize'' = Some (JStr ''gigantic'')"
    "get_member (JObj [(''theme'', JStr ''dark''), (''fontSize'', JStr [])])
      ''fontSize'' = Some (JStr [])"
    by simp_all
  have tr: "truthy (Some (JStr ''gigantic''))"
    by simp
  have ne: "JStr ''gigantic'' \<noteq> fontSize (getThemeSettings ?w)"
    by (simp add: getThemeSettings_def world_of_def dark_store_def settings_of_def)
  have local: "fontSize (getThemeSettings ?w') = JStr ''medium''"
    by (simp add: getThemeSettings_def world_of_def dark_store_def settings_of_def)
  from font_size_applied_when_truthy
         [OF rd us(1) dp(1) blank_examples(5) parse_examples(5) mem(1)]
    font_size_applied_when_truthy
         [OF rd us(2) dp(2) blank_examples(4) parse_examples(4) mem(2)]
    tr ne local
  show ?thesis
    by blast
qed

lemma fold_set_field_updateData:
  "fold set_field (updateData J r d a) u =
     u\<lparr>display_preferences :=
           if d then Some (JSON_stringify J (display_object (form_theme r) (form_fontSize r)))
           else display_preferences u,
       accessibility_settings :=
           if a then Some (JSON_stringify J
                  (accessibility_object (form_colorBlindMode r) (form_reducedMotion r)))
           else accessibility_settings u\<rparr>"
  by (simp add: updateData_def)

lemma loadPreferences_user:
  assumes "read_ok out" "current_user w = Some u"
  shows "current_user (world_after (loadPreferences J out r w)) =
     Some (u\<lparr>display_preferences :=
               if needs_display J (display_preferences u) \<and> remote_write_ok out
               then Some (JSON_stringify J (display_object (form_theme r) (form_fontSize r)))
               else display_preferences u,
             accessibility_settings :=
               if needs_accessibility J (accessibility_settings u) \<and> remote_write_ok out
               then Some (JSON_stringify J
                      (accessibility_object (form_colorBlindMode r) (form_reducedMotion r)))
               else accessibility_settings u\<rparr>)"
  using assms
  by (simp add: loadPreferences_world updateFields_def fold_set_field_updateData)

text \<open>
  \<^bold>\<open>Claim C10\<close>: for an accessibility field that decodes, a \<^verbatim>\<open>colorBlindMode\<close> or
  \<^verbatim>\<open>reducedMotion\<close> that is present and not a boolean is not applied (the working value
  is the local one); with such a member the check logs nothing, leaves
  \<^verbatim>\<open>needsAccessibilityUpdate\<close> unset, the remote write of the run (if any) does not
  contain \<^verbatim>\<open>accessibility_settings\<close>, and the field of the user record is as before.
  The witness is the field \<^verbatim>\<open>{"colorBlindMode":"true","reducedMotion":1}\<close>.
\<close>

theorem non_boolean_accessibility_ignored:
  assumes rd: "read_ok out" and us: "current_user w = Some u"
    and acs: "accessibility_settings u = Some s" and nb: "\<not> js_blank s"
    and ps: "JSON_parse J s = Some v"
  shows "(get_member v ''colorBlindMode'' = Some x \<and> \<not> is_boolean x \<longrightarrow>
            form_colorBlindMode (state_after (reconcile J out w))
              = colorBlindMode (getThemeSettings w))
    \<and> (get_member v ''reducedMotion'' = Some y \<and> \<not> is_boolean y \<longrightarrow>
            form_reducedMotion (state_after (reconcile J out w))
              = reducedMotion (getThemeSettings w))
    \<and> (get_member v ''colorBlindMode'' = Some x \<or> get_member v ''reducedMotion'' = Some y \<longrightarrow>
            \<not> fst (snd (accessibility_check J ts u f))
            \<and> snd (snd (accessibility_check J ts u f)) = []
            \<and> ''accessibility_settings''
                \<notin> set (map fst (remote_writes (trace_of (reconcile J out w))))
            \<and> Option.bind (current_user (world_after (reconcile J out w)))
                  accessibility_settings = Some s)"
proof -
  let ?ts = "getThemeSettings w"
  let ?f1 = "show_settings ?ts initial_state"
  let ?f2 = "fst (display_check J ?ts u ?f1)"
  have f2: "form_colorBlindMode ?f2 = colorBlindMode ?ts"
    "form_reducedMotion ?f2 = reducedMotion ?ts"
    by (simp_all add: display_check_frame show_settings_def)
  have st: "state_after (reconcile J out w) = accessibility_decoded ?ts v ?f2" if "v \<noteq> JNull"
    using that acs nb ps
    by (simp add: reconcile_def loadPreferences_state [OF rd us] accessibility_check_decoded)
  have cb: "form_colorBlindMode (state_after (reconcile J out w)) = colorBlindMode ?ts"
    if "get_member v ''colorBlindMode'' = Some x" "\<not> is_boolean x"
    using that
    by (cases x)
      (simp_all add: st get_member_not_null accessibility_decoded_colorBlindMode f2)
  have rm: "form_reducedMotion (state_after (reconcile J out w)) = reducedMotion ?ts"
    if "get_member v ''reducedMotion'' = Some y" "\<not> is_boolean y"
    using that
    by (cases y)
      (simp_all add: st get_member_not_null accessibility_decoded_reducedMotion f2)
  have quiet: "\<not> fst (snd (accessibility_check J ts u f))
      \<and> snd (snd (accessibility_check J ts u f)) = []
      \<and> ''accessibility_settings''
          \<notin> set (map fst (remote_writes (trace_of (reconcile J out w))))
      \<and> Option.bind (current_user (world_after (reconcile J out w)))
            accessibility_settings = Some s"
    if "v \<noteq> JNull"
  proof -
    have flag: "\<not> needs_accessibility J (accessibility_settings u)"
      using that acs nb ps by (simp add: needs_accessibility_def)
    have "accessibility_check J ts u f = (accessibility_decoded ts v f, False, [])"
      using that acs nb ps by (simp add: accessibility_check_decoded)
    moreover have "''accessibility_settings''
        \<notin> set (map fst (remote_writes (trace_of (reconcile J out w))))"
      using flag by (simp add: reconcile_def loadPreferences_remote_keys [OF rd us])
    moreover have "Option.bind (current_user (world_after (reconcile J out w)))
        accessibility_settings = Some s"
      using flag acs by (simp add: reconcile_def loadPreferences_user [OF rd us])
    ultimately show ?thesis by simp
  qed
  from cb rm quiet show ?thesis
    by (metis get_member_not_null)
qed

theorem non_boolean_accessibility_ignored_witness:
  "form_colorBlindMode (state_after (reconcile JSON_ref all_ok
       (world_of dark_store (Some (user_with None (Some text_not_booleans))))))
     = colorBlindMode (getThemeSettings
         (world_of dark_store (Some (user_with None (Some text_not_booleans)))))
   \<and> form_reducedMotion (state_after (reconcile JSON_ref all_ok
       (world_of dark_store (Some (user_with None (Some text_not_booleans))))))
     = reducedMotion (getThemeSettings
         (world_of dark_store (Some (user_with None (Some text_not_booleans)))))
   \<and> \<not> fst (snd (accessibility_check JSON_ref dark_store
         (user_with None (Some text_not_booleans)) initial_state))
   \<and> snd (snd (accessibility_check JSON_ref dark_store
         (user_with None (Some text_not_booleans)) initial_state)) = []
   \<and> ''accessibility_settings''
        \<notin> set (map fst (remote_writes (trace_of (reconcile JSON_ref all_ok
             (world_of dark_store (Some (user_with None (Some text_not_booleans))))))))
   \<and> Option.bind (current_user (world_after (reconcile JSON_ref all_ok
         (world_of dark_store (Some (user_with None (Some text_not_booleans)))))))
       accessibility_settings = Some text_not_booleans"
proof -
  let ?u = "user_with None (Some text_not_booleans)"
  let ?w = "world_of dark_store (Some ?u)"
  let ?v = "JObj [(''colorBlindMode'', JStr ''true''), (''reducedMotion'', JNum 1)]"
  have rd: "read_ok all_ok"
    by (simp add: all_ok_def)
  have us: "current_user ?w = Some ?u"
    by (simp add: world_of_def)
  have acs: "accessibility_settings ?u = Some text_not_booleans"
    by (simp add: user_with_def)
  have h: "get_member ?v ''colorBlindMode'' = Some (JStr ''true'') \<and> \<not> is_boolean (JStr ''true'')"
    "get_member ?v ''reducedMotion'' = Some (JNum 1) \<and> \<not> is_boolean (JNum 1)"
    by simp_all
  from non_boolean_accessibility_ignored [OF rd us acs blank_examples(6) parse_examples(6),
      where x = "JStr ''true''" and y = "JNum 1" and ts = dark_store and f = initial_state] h
  show ?thesis
    by blast
qed

section \<open>Reconciliation and the remote record\<close>

text \<open>
  \<^bold>\<open>Claim C1\<close> says that the texts written back for a flagged field serialize the
  working state.  \<^verbatim>\<open>initializeDefaultSettings\<close> serializes the state of the render that
  created \<^verbatim>\<open>loadPreferences\<close>, which is the initial state, whatever the setters have been
  given since.  Here the stored record is light, large, true, true and both remote fields
  are absent: the working form is light, large, true, true, both fields are flagged and
  written, and the texts written are those of dark, medium, false, false, not the texts of
  the working form.
\<close>

theorem reconcile_writes_defaults_not_form:
  "form_theme (state_after (reconcile JSON_ref all_ok
       (world_of light_store (Some (user_with None None))))) = Light
   \<and> form_fontSize (state_after (reconcile JSON_ref all_ok
       (world_of light_store (Some (user_with None None))))) = JStr ''large''
   \<and> form_colorBlindMode (state_after (reconcile JSON_ref all_ok
       (world_of light_store (Some (user_with None None)))))
   \<and> form_reducedMotion (state_after (reconcile JSON_ref all_ok
       (world_of light_store (Some (user_with None None)))))
   \<and> JSON_stringify JSON_ref (display_object Light (JStr ''large'')) = text_light_large
   \<and> JSON_stringify JSON_ref (accessibility_object True True) = text_all_on
   \<and> remote_writes (trace_of (reconcile JSON_ref all_ok
       (world_of light_store (Some (user_with None None)))))
     = [(''display_preferences'', text_dark_medium), (''accessibility_settings'', text_all_off)]
   \<and> text_dark_medium \<noteq> text_light_large
   \<and> text_all_off \<noteq> text_all_on"
  by code_simp

lemma strict_eq_font [simp]: "strict_eq (font_json fs) (font_json fs)"
  by (cases fs) simp_all

lemma truthy_font [simp]: "truthy (Some (font_json fs))"
  by (cases fs) simp_all

lemma needs_display_roundtrip:
  "roundtrips J (display_object t x) \<Longrightarrow>
     \<not> needs_display J (Some (JSON_stringify J (display_object t x)))"
  by (simp add: roundtrips_def needs_display_def) (simp add: display_object_def)

lemma needs_accessibility_roundtrip:
  "roundtrips J (accessibility_object cb rm) \<Longrightarrow>
     \<not> needs_accessibility J (Some (JSON_stringify J (accessibility_object cb rm)))"
  by (simp add: roundtrips_def needs_accessibility_def) (simp add: accessibility_object_def)

lemma loadPreferences_quiet:
  assumes "read_ok out" "current_user w = Some u"
    and "\<not> needs_display J (display_preferences u)"
    and "\<not> needs_accessibility J (accessibility_settings u)"
  shows "filter is_update (trace_of (loadPreferences J out r w)) = []"
    and "world_after (loadPreferences J out r w) = w"
  using assms by (simp_all add: loadPreferences_updates loadPreferences_world)

text \<open>
  \<^bold>\<open>Claim C4\<close>: run reconciliation in any world, with the remote write (if one is
  made) taking effect, and run it again in the resulting world: the second run makes no
  remote write and changes nothing in the world.  What is needed of the built-ins is that
  the two texts which reconciliation writes decode to the objects they were written from.
\<close>

theorem second_reconciliation_writes_nothing:
  assumes wr: "remote_write_ok out"
    and rt1: "roundtrips J
                (display_object (form_theme initial_state) (form_fontSize initial_state))"
    and rt2: "roundtrips J
                (accessibility_object (form_colorBlindMode initial_state)
                   (form_reducedMotion initial_state))"
  shows "filter is_update (trace_of (reconcile J out (world_after (reconcile J out w)))) = []
    \<and> world_after (reconcile J out (world_after (reconcile J out w)))
        = world_after (reconcile J out w)"
proof (cases "read_ok out")
  case False
  then show ?thesis
    by (simp add: reconcile_def loadPreferences_def)
next
  case rd: True
  show ?thesis
  proof (cases "current_user w")
    case None
    then show ?thesis
      using rd by (simp add: reconcile_def loadPreferences_def Let_def)
  next
    case (Some u)
    let ?w1 = "world_after (reconcile J out w)"
    let ?u1 = "u\<lparr>display_preferences :=
                   if needs_display J (display_preferences u) \<and> remote_write_ok out
                   then Some (JSON_stringify J
                          (display_object (form_theme initial_state) (form_fontSize initial_state)))
                   else display_preferences u,
                 accessibility_settings :=
                   if needs_accessibility J (accessibility_settings u) \<and> remote_write_ok out
                   then Some (JSON_stringify J
                          (accessibility_object (form_colorBlindMode initial_state)
                             (form_reducedMotion initial_state)))
                   else accessibility_settings u\<rparr>"
    have us1: "current_user ?w1 = Some ?u1"
      by (simp only: reconcile_def loadPreferences_user [OF rd Some])
    have nd: "\<not> needs_display J (display_preferences ?u1)"
      using wr needs_display_roundtrip [OF rt1] by simp
    have na: "\<not> needs_accessibility J (accessibility_settings ?u1)"
      using wr needs_accessibility_roundtrip [OF rt2] by simp
    show ?thesis
      unfolding reconcile_def [of J out ?w1]
      using loadPreferences_quiet [OF rd us1 nd na] by simp
  qed
qed

lemma ref_roundtrips_display: "roundtrips JSON_ref (display_object t (font_json fs))"
  by (cases t; cases fs; hypsubst; code_simp)

lemma ref_roundtrips_accessibility: "roundtrips JSON_ref (accessibility_object cb rm)"
proof -
  have "roundtrips JSON_ref (accessibility_object True True)"
    "roundtrips JSON_ref (accessibility_object True False)"
    "roundtrips JSON_ref (accessibility_object False True)"
    "roundtrips JSON_ref (accessibility_object False False)"
    by code_simp+
  then show ?thesis
    by (cases cb; cases rm) simp_all
qed

lemma ref_roundtrips_initial:
  "roundtrips JSON_ref (display_object (form_theme initial_state) (form_fontSize initial_state))"
  "roundtrips JSON_ref
     (accessibility_object (form_colorBlindMode initial_state) (form_reducedMotion initial_state))"
  by code_simp+

theorem second_reconciliation_writes_nothing_witness:
  "filter is_update (trace_of (reconcile JSON_ref all_ok
       (world_of light_store (Some (user_with (Some text_purple) None)))))
     = [UpdateFields ''u1'' [(''display_preferences'', text_dark_medium),
                              (''accessibility_settings'', text_all_off)]]
   \<and> filter is_update (trace_of (reconcile JSON_ref all_ok (world_after (reconcile JSON_ref all_ok
       (world_of light_store (Some (user_with (Some text_purple) None))))))) = []
   \<and> world_after (reconcile JSON_ref all_ok (world_after (reconcile JSON_ref all_ok
       (world_of light_store (Some (user_with (Some text_purple) None))))))
     = world_after (reconcile JSON_ref all_ok
       (world_of light_store (Some (user_with (Some text_purple) None))))"
proof -
  have wr: "remote_write_ok all_ok"
    by (simp add: all_ok_def)
  have first: "filter is_update (trace_of (reconcile JSON_ref all_ok
       (world_of light_store (Some (user_with (Some text_purple) None)))))
     = [UpdateFields ''u1'' [(''display_preferences'', text_dark_medium),
                              (''accessibility_settings'', text_all_off)]]"
    by code_simp
  from second_reconciliation_writes_nothing [OF wr ref_roundtrips_initial,
      of "world_of light_store (Some (user_with (Some text_purple) None))"] first
  show ?thesis
    by simp
qed

lemma save_success:
  assumes "current_user w = Some u" "local_write_ok out" "remote_write_ok out"
  shows "world_after (handleSubmit J out f w) =
           \<lparr>local_store = Some (saved_record f (now_saved out)),
            current_user = Some (u\<lparr>display_preferences :=
                Some (JSON_stringify J (display_object (form_theme f) (form_fontSize f))),
              accessibility_settings :=
                Some (JSON_stringify J
                  (accessibility_object (form_colorBlindMode f) (form_reducedMotion f)))\<rparr>)\<rparr>"
  using assms
  by (simp add: handleSubmit_cases updateFields_def saveThemeSettings_def save_fields_def)

lemma display_decoded_remote:
  "form_theme (fst (display_decoded ts (display_object t (font_json fs)) (show_settings ts r))) = t"
  "form_fontSize (fst (display_decoded ts (display_object t (font_json fs)) (show_settings ts r)))
     = font_json fs"
proof -
  show "form_theme (fst (display_decoded ts (display_object t (font_json fs))
      (show_settings ts r))) = t"
    by (simp add: display_decoded_theme display_object_def show_settings_def)
  have "strict_eq (font_json fs) (fontSize ts) \<Longrightarrow> fontSize ts = font_json fs"
    using strict_eq_same by fastforce
  then show "form_fontSize (fst (display_decoded ts (display_object t (font_json fs))
      (show_settings ts r))) = font_json fs"
    by (simp add: display_decoded_fontSize display_object_def show_settings_def)
qed

lemma accessibility_decoded_remote:
  assumes "form_colorBlindMode f = colorBlindMode ts" "form_reducedMotion f = reducedMotion ts"
  shows "form_colorBlindMode (accessibility_decoded ts (accessibility_object cb rm) f) = cb"
    and "form_reducedMotion (accessibility_decoded ts (accessibility_object cb rm) f) = rm"
  using assms
  by (auto simp: accessibility_decoded_colorBlindMode accessibility_decoded_reducedMotion
      accessibility_object_def)

lemma reconcile_from_remote:
  assumes rd: "read_ok out" and us: "current_user w = Some u"
    and dp: "display_preferences u = Some (JSON_stringify J (display_object t (font_json fs)))"
    and acs: "accessibility_settings u = Some (JSON_stringify J (accessibility_object cb rm))"
    and rt1: "roundtrips J (display_object t (font_json fs))"
    and rt2: "roundtrips J (accessibility_object cb rm)"
  shows "form_theme (state_after (reconcile J out w)) = t"
    and "form_fontSize (state_after (reconcile J out w)) = font_json fs"
    and "form_colorBlindMode (state_after (reconcile J out w)) = cb"
    and "form_reducedMotion (state_after (reconcile J out w)) = rm"
proof -
  let ?ts = "getThemeSettings w"
  let ?f1 = "show_settings ?ts initial_state"
  let ?dobj = "display_object t (font_json fs)"
  let ?aobj = "accessibility_object cb rm"
  let ?f2 = "fst (display_decoded ?ts ?dobj ?f1)"
  have p1: "JSON_parse J (JSON_stringify J ?dobj) = Some ?dobj"
    and b1: "\<not> js_blank (JSON_stringify J ?dobj)"
    using rt1 by (simp_all add: roundtrips_def)
  have p2: "JSON_parse J (JSON_stringify J ?aobj) = Some ?aobj"
    and b2: "\<not> js_blank (JSON_stringify J ?aobj)"
    using rt2 by (simp_all add: roundtrips_def)
  have dc: "fst (display_check J ?ts u ?f1) = ?f2"
    using display_check_decoded [OF dp b1 p1, of ?ts ?f1] by (simp add: display_object_def)
  have ac: "fst (accessibility_check J ?ts u ?f2) = accessibility_decoded ?ts ?aobj ?f2"
    using accessibility_check_decoded [OF acs b2 p2, of ?ts ?f2]
    by (simp add: accessibility_object_def)
  have st: "state_after (reconcile J out w) = accessibility_decoded ?ts ?aobj ?f2"
    by (simp add: reconcile_def loadPreferences_state [OF rd us] dc ac)
  have f2: "form_colorBlindMode ?f2 = colorBlindMode ?ts"
    "form_reducedMotion ?f2 = reducedMotion ?ts"
    by (simp_all add: display_decoded_frame show_settings_def)
  show "form_theme (state_after (reconcile J out w)) = t"
    by (simp only: st accessibility_decoded_frame display_decoded_remote)
  show "form_fontSize (state_after (reconcile J out w)) = font_json fs"
    by (simp only: st accessibility_decoded_frame display_decoded_remote)
  show "form_colorBlindMode (state_after (reconcile J out w)) = cb"
    by (simp only: st accessibility_decoded_remote [OF f2])
  show "form_reducedMotion (state_after (reconcile J out w)) = rm"
    by (simp only: st accessibility_decoded_remote [OF f2])
qed

lemma reconcile_signed_out:
  assumes "read_ok out" "current_user w = None"
  shows "state_after (reconcile J out w) = show_settings (getThemeSettings w) initial_state"
  using assms by (simp add: reconcile_def loadPreferences_def Let_def)

text \<open>
  \<^bold>\<open>Claim C3\<close>: let an authenticated user save a form that holds a theme, one of the
  four font sizes and the two booleans, with both writes succeeding, and let the built-ins
  decode the two texts written to the objects they were written from.  Then
  \<^item> the Local Preference Store holds that combination, and a load without a user, which
    reads the store alone, shows it;
  \<^item> the two remote fields decode to objects whose members \<^verbatim>\<open>theme\<close>, \<^verbatim>\<open>fontSize\<close>,
    \<^verbatim>\<open>colorBlindMode\<close> and \<^verbatim>\<open>reducedMotion\<close> are the four values, and a load against
    these remote fields shows that combination whatever record \<open>L\<close> the local store of the
    loading device holds;
  \<^item> a fresh reconciliation after the save shows the combination with no unsaved change,
    writes nothing to the remote record and leaves the world as the save left it.
\<close>

theorem save_then_load_reproduces:
  assumes us: "current_user w = Some u"
    and lw: "local_write_ok out" and rw: "remote_write_ok out"
    and rd: "read_ok out'"
    and fs: "form_fontSize f = font_json fs"
    and rt1: "roundtrips J (display_object (form_theme f) (font_json fs))"
    and rt2: "roundtrips J
                (accessibility_object (form_colorBlindMode f) (form_reducedMotion f))"
  shows "theme (getThemeSettings (world_after (handleSubmit J out f w))) = form_theme f
    \<and> fontSize (getThemeSettings (world_after (handleSubmit J out f w))) = font_json fs
    \<and> colorBlindMode (getThemeSettings (world_after (handleSubmit J out f w)))
        = form_colorBlindMode f
    \<and> reducedMotion (getThemeSettings (world_after (handleSubmit J out f w)))
        = form_reducedMotion f
    \<and> Option.bind (Option.bind (current_user (world_after (handleSubmit J out f w)))
          display_preferences) (JSON_parse J)
        = Some (display_object (form_theme f) (font_json fs))
    \<and> Option.bind (Option.bind (current_user (world_after (handleSubmit J out f w)))
          accessibility_settings) (JSON_parse J)
        = Some (accessibility_object (form_colorBlindMode f) (form_reducedMotion f))
    \<and> form_theme (state_after (reconcile J out' (world_after (handleSubmit J out f w))))
        = form_theme f
    \<and> form_fontSize (state_after (reconcile J out' (world_after (handleSubmit J out f w))))
        = font_json fs
    \<and> form_colorBlindMode (state_after (reconcile J out' (world_after (handleSubmit J out f w))))
        = form_colorBlindMode f
    \<and> form_reducedMotion (state_after (reconcile J out' (world_after (handleSubmit J out f w))))
        = form_reducedMotion f
    \<and> \<not> hasChanges (state_after (reconcile J out' (world_after (handleSubmit J out f w))))
    \<and> filter is_update (trace_of (reconcile J out' (world_after (handleSubmit J out f w)))) = []
    \<and> world_after (reconcile J out' (world_after (handleSubmit J out f w)))
        = (world_after (handleSubmit J out f w))
    \<and> remote_member J (world_after (handleSubmit J out f w)) display_preferences ''theme''
        = Some (JStr (theme_name (form_theme f)))
    \<and> remote_member J (world_after (handleSubmit J out f w)) display_preferences ''fontSize''
        = Some (font_json fs)
    \<and> remote_member J (world_after (handleSubmit J out f w)) accessibility_settings ''colorBlindMode''
        = Some (JBool (form_colorBlindMode f))
    \<and> remote_member J (world_after (handleSubmit J out f w)) accessibility_settings ''reducedMotion''
        = Some (JBool (form_reducedMotion f))
    \<and> form_theme (state_after (reconcile J out'
          ((world_after (handleSubmit J out f w))\<lparr>local_store := L\<rparr>))) = form_theme f
    \<and> form_fontSize (state_after (reconcile J out'
          ((world_after (handleSubmit J out f w))\<lparr>local_store := L\<rparr>))) = font_json fs
    \<and> form_colorBlindMode (state_after (reconcile J out'
          ((world_after (handleSubmit J out f w))\<lparr>local_store := L\<rparr>))) = form_colorBlindMode f
    \<and> form_reducedMotion (state_after (reconcile J out'
          ((world_after (handleSubmit J out f w))\<lparr>local_store := L\<rparr>))) = form_reducedMotion f
    \<and> form_theme (state_after (reconcile J out'
          ((world_after (handleSubmit J out f w))\<lparr>current_user := None\<rparr>))) = form_theme f
    \<and> form_fontSize (state_after (reconcile J out'
          ((world_after (handleSubmit J out f w))\<lparr>current_user := None\<rparr>))) = font_json fs
    \<and> form_colorBlindMode (state_after (reconcile J out'
          ((world_after (handleSubmit J out f w))\<lparr>current_user := None\<rparr>))) = form_colorBlindMode f
    \<and> form_reducedMotion (state_after (reconcile J out'
          ((world_after (handleSubmit J out f w))\<lparr>current_user := None\<rparr>))) = form_reducedMotion f"
proof -
  let ?dobj = "display_object (form_theme f) (font_json fs)"
  let ?aobj = "accessibility_object (form_colorBlindMode f) (form_reducedMotion f)"
  let ?u1 = "u\<lparr>display_preferences := Some (JSON_stringify J ?dobj),
               accessibility_settings := Some (JSON_stringify J ?aobj)\<rparr>"
  let ?ts = "saved_record f (now_saved out)"
  let ?w1 = "world_after (handleSubmit J out f w)"
  let ?f1 = "show_settings ?ts initial_state"
  have w1: "?w1 = \<lparr>local_store = Some ?ts, current_user = Some ?u1\<rparr>"
    using fs by (simp add: save_success [OF us lw rw])
  have ts: "getThemeSettings ?w1 = ?ts"
    by (simp add: w1 getThemeSettings_def)
  have us1: "current_user ?w1 = Some ?u1"
    by (simp add: w1)
  have local: "theme ?ts = form_theme f" "fontSize ?ts = font_json fs"
    "colorBlindMode ?ts = form_colorBlindMode f" "reducedMotion ?ts = form_reducedMotion f"
    using fs by (simp_all add: saved_record_def)
  have p1: "JSON_parse J (JSON_stringify J ?dobj) = Some ?dobj"
    and b1: "\<not> js_blank (JSON_stringify J ?dobj)"
    using rt1 by (simp_all add: roundtrips_def)
  have p2: "JSON_parse J (JSON_stringify J ?aobj) = Some ?aobj"
    and b2: "\<not> js_blank (JSON_stringify J ?aobj)"
    using rt2 by (simp_all add: roundtrips_def)
  have remote: "Option.bind (Option.bind (current_user ?w1) display_preferences) (JSON_parse J)
        = Some ?dobj"
    "Option.bind (Option.bind (current_user ?w1) accessibility_settings) (JSON_parse J)
        = Some ?aobj"
    by (simp_all add: us1 p1 p2)
  have members: "remote_member J ?w1 display_preferences ''theme''
        = Some (JStr (theme_name (form_theme f)))"
    "remote_member J ?w1 display_preferences ''fontSize'' = Some (font_json fs)"
    "remote_member J ?w1 accessibility_settings ''colorBlindMode''
        = Some (JBool (form_colorBlindMode f))"
    "remote_member J ?w1 accessibility_settings ''reducedMotion''
        = Some (JBool (form_reducedMotion f))"
    unfolding remote_member_def remote
    by (simp_all add: display_object_def accessibility_object_def)
  have dc: "display_check J ?ts ?u1 ?f1
      = (fst (display_decoded ?ts ?dobj ?f1), snd (display_decoded ?ts ?dobj ?f1), [])"
    by (rule display_check_decoded [OF _ b1 p1]) (simp_all add: display_object_def)
  have dd: "fst (display_decoded ?ts ?dobj ?f1) = ?f1"
    by (simp add: display_decoded_def display_object_def local Let_def)
  have ac: "accessibility_check J ?ts ?u1 ?f1 = (accessibility_decoded ?ts ?aobj ?f1, False, [])"
    by (rule accessibility_check_decoded [OF _ b2 p2]) (simp_all add: accessibility_object_def)
  have ad: "accessibility_decoded ?ts ?aobj ?f1 = ?f1"
    by (simp add: accessibility_decoded_def accessibility_object_def local Let_def)
  have st: "state_after (reconcile J out' ?w1) = ?f1"
    by (simp add: reconcile_def loadPreferences_state [OF rd us1] ts dc dd ac ad)
  have form: "form_theme ?f1 = form_theme f" "form_fontSize ?f1 = font_json fs"
    "form_colorBlindMode ?f1 = form_colorBlindMode f"
    "form_reducedMotion ?f1 = form_reducedMotion f" "\<not> hasChanges ?f1"
    by (simp_all add: show_settings_def local)
  have nd: "\<not> needs_display J (display_preferences ?u1)"
    using needs_display_roundtrip [OF rt1] by simp
  have na: "\<not> needs_accessibility J (accessibility_settings ?u1)"
    using needs_accessibility_roundtrip [OF rt2] by simp
  have quiet: "filter is_update (trace_of (reconcile J out' ?w1)) = []"
    "world_after (reconcile J out' ?w1) = ?w1"
    unfolding reconcile_def using loadPreferences_quiet [OF rd us1 nd na] by simp_all
  have usL: "current_user (?w1\<lparr>local_store := L\<rparr>) = Some ?u1"
    by (simp add: us1)
  have dpL: "display_preferences ?u1 = Some (JSON_stringify J ?dobj)"
    and acL: "accessibility_settings ?u1 = Some (JSON_stringify J ?aobj)"
    by simp_all
  note from_remote = reconcile_from_remote [OF rd usL dpL acL rt1 rt2]
  have usN: "current_user (?w1\<lparr>current_user := None\<rparr>) = None"
    by simp
  have tsN: "getThemeSettings (?w1\<lparr>current_user := None\<rparr>) = ?ts"
    by (simp add: getThemeSettings_def w1)
  have from_local: "state_after (reconcile J out' (?w1\<lparr>current_user := None\<rparr>)) = ?f1"
    by (simp only: reconcile_signed_out [OF rd usN] tsN)
  show ?thesis
    by (simp only: ts local remote st form quiet members from_remote from_local simp_thms)
qed

theorem save_then_load_reproduces_witness:
  "theme (getThemeSettings
      (world_after (handleSubmit JSON_ref all_ok edited_form
        (world_of dark_store (Some (user_with None None)))))) = Light
   \<and> fontSize (getThemeSettings
      (world_after (handleSubmit JSON_ref all_ok edited_form
        (world_of dark_store (Some (user_with None None)))))) = JStr ''large''
   \<and> colorBlindMode (getThemeSettings
      (world_after (handleSubmit JSON_ref all_ok edited_form
        (world_of dark_store (Some (user_with None None))))))
   \<and> reducedMotion (getThemeSettings
      (world_after (handleSubmit JSON_ref all_ok edited_form
        (world_of dark_store (Some (user_with None None))))))
   \<and> Option.bind (Option.bind (current_user
      (world_after (handleSubmit JSON_ref all_ok edited_form
        (world_of dark_store (Some (user_with None None)))))) display_preferences) (JSON_parse JSON_ref)
      = Some (display_object Light (JStr ''large''))
   \<and> Option.bind (Option.bind (current_user
      (world_after (handleSubmit JSON_ref all_ok edited_form
        (world_of dark_store (Some (user_with None None)))))) accessibility_settings) (JSON_parse JSON_ref)
      = Some (accessibility_object True True)
   \<and> form_theme (state_after
      (reconcile JSON_ref all_ok
      (world_after (handleSubmit JSON_ref all_ok edited_form
        (world_of dark_store (Some (user_with None None))))))) = Light
   \<and> form_fontSize (state_after
      (reconcile JSON_ref all_ok
      (world_after (handleSubmit JSON_ref all_ok edited_form
        (world_of dark_store (Some (user_with None None))))))) = JStr ''large''
   \<and> form_colorBlindMode (state_after
      (reconcile JSON_ref all_ok
      (world_after (handleSubmit JSON_ref all_ok edited_form
        (world_of dark_store (Some (user_with None None)))))))
   \<and> form_reducedMotion (state_after
      (reconcile JSON_ref all_ok
      (world_after (handleSubmit JSON_ref all_ok edited_form
        (world_of dark_store (Some (user_with None None)))))))
   \<and> \<not> hasChanges (state_after
      (reconcile JSON_ref all_ok
      (world_after (handleSubmit JSON_ref all_ok edited_form
        (world_of dark_store (Some (user_with None None)))))))
   \<and> filter is_update (trace_of
      (reconcile JSON_ref all_ok
      (world_after (handleSubmit JSON_ref all_ok edited_form
        (world_of dark_store (Some (user_with None None))))))) = []
   \<and> world_after
      (reconcile JSON_ref all_ok
      (world_after (handleSubmit JSON_ref all_ok edited_form
        (world_of dark_store (Some (user_with None None))))))
      = (world_after (handleSubmit JSON_ref all_ok edited_form
        (world_of dark_store (Some (user_with None None)))))
   \<and> remote_member JSON_ref
      (world_after (handleSubmit JSON_ref all_ok edited_form
        (world_of dark_store (Some (user_with None None))))) display_preferences ''theme'' = Some (JStr ''light'')
   \<and> remote_member JSON_ref
      (world_after (handleSubmit JSON_ref all_ok edited_form
        (world_of dark_store (Some (user_with None None))))) display_preferences ''fontSize'' = Some (JStr ''large'')
   \<and> remote_member JSON_ref
      (world_after (handleSubmit JSON_ref all_ok edited_form
        (world_of dark_store (Some (user_with None None))))) accessibility_settings ''colorBlindMode'' = Some (JBool True)
   \<and> remote_member JSON_ref
      (world_after (handleSubmit JSON_ref all_ok edited_form
        (world_of dark_store (Some (user_with None None))))) accessibility_settings ''reducedMotion'' = Some (JBool True)
   \<and> form_theme (state_after
      (reconcile JSON_ref all_ok
      ((world_after (handleSubmit JSON_ref all_ok edited_form
        (world_of dark_store (Some (user_with None None)))))\<lparr>local_store := Some small_store\<rparr>))) = Light
   \<and> form_fontSize (state_after
      (reconcile JSON_ref all_ok
      ((world_after (handleSubmit JSON_ref all_ok edited_form
        (world_of dark_store (Some (user_with None None)))))\<lparr>local_store := Some small_store\<rparr>))) = JStr ''large''
   \<and> form_colorBlindMode (state_after
      (reconcile JSON_ref all_ok
      ((world_after (handleSubmit JSON_ref all_ok edited_form
        (world_of dark_store (Some (user_with None None)))))\<lparr>local_store := Some small_store\<rparr>)))
   \<and> form_reducedMotion (state_after
      (reconcile JSON_ref all_ok
      ((world_after (handleSubmit JSON_ref all_ok edited_form
        (world_of dark_store (Some (user_with None None)))))\<lparr>local_store := Some small_store\<rparr>)))
   \<and> form_theme (state_after
      (reconcile JSON_ref all_ok
      ((world_after (handleSubmit JSON_ref all_ok edited_form
        (world_of dark_store (Some (user_with None None)))))\<lparr>current_user := None\<rparr>))) = Light
   \<and> form_fontSize (state_after
      (reconcile JSON_ref all_ok
      ((world_after (handleSubmit JSON_ref all_ok edited_form
        (world_of dark_store (Some (user_with None None)))))\<lparr>current_user := None\<rparr>))) = JStr ''large''
   \<and> form_colorBlindMode (state_after
      (reconcile JSON_ref all_ok
      ((world_after (handleSubmit JSON_ref all_ok edited_form
        (world_of dark_store (Some (user_with None None)))))\<lparr>current_user := None\<rparr>)))
   \<and> form_reducedMotion (state_after
      (reconcile JSON_ref all_ok
      ((world_after (handleSubmit JSON_ref all_ok edited_form
        (world_of dark_store (Some (user_with None None)))))\<lparr>current_user := None\<rparr>)))
   \<and> theme small_store = Dark \<and> fontSize small_store = JStr ''small''
   \<and> \<not> colorBlindMode small_store \<and> \<not> reducedMotion small_store"
proof -
  have us: "current_user (world_of dark_store (Some (user_with None None))) = Some (user_with None None)"
    by (simp add: world_of_def)
  have ok: "local_write_ok all_ok" "remote_write_ok all_ok" "read_ok all_ok"
    by (simp_all add: all_ok_def)
  have fs: "form_fontSize edited_form = font_json Large"
    by (simp add: edited_form_def)
  have rt1: "roundtrips JSON_ref (display_object (form_theme edited_form) (font_json Large))"
    by (rule ref_roundtrips_display)
  have rt2: "roundtrips JSON_ref
      (accessibility_object (form_colorBlindMode edited_form) (form_reducedMotion edited_form))"
    by (rule ref_roundtrips_accessibility)
  have form: "form_theme edited_form = Light" "font_json Large = JStr ''large''"
    "theme_name Light = ''light''"
    "form_colorBlindMode edited_form" "form_reducedMotion edited_form"
    by (simp_all add: edited_form_def)
  have other: "theme small_store = Dark" "fontSize small_store = JStr ''small''"
    "\<not> colorBlindMode small_store" "\<not> reducedMotion small_store"
    by (simp_all add: small_store_def settings_of_def)
  from save_then_load_reproduces [OF us ok(1) ok(2) ok(3) fs rt1 rt2, of "Some small_store"]
    other
  show ?thesis
    by (simp only: form simp_thms)
qed

section \<open>Properties of \<^verbatim>\<open>handleToggle\<close>\<close>

lemma flip_theme_differs: "flip_theme a \<noteq> a"
  by (cases a) simp_all





end
